theory Spec2Isabelle
  imports Complex_Main
begin

section \<open>JavaScript values\<close>

text \<open>
  The handlers of \<^verbatim>\<open>transcriptionRoutes.js\<close> work on values that come out of
  \<^verbatim>\<open>JSON.parse\<close> and out of the service SDKs. A number is an IEEE double: a finite
  double is the rational it denotes, and the three special values are kept apart
  (\<^verbatim>\<open>JSON.parse("1e999")\<close> is \<^verbatim>\<open>Infinity\<close>). An object is the list of its own
  properties, each key once. A string is the list of its characters; the handlers only
  test strings for emptiness and, as property keys, for being a decimal array index.
\<close>

datatype jsnum = Dbl rat | PosInf | NegInf | NaN

datatype jsval =
    JUndefined
  | JNull
  | JBool bool
  | JNum jsnum
  | JStr string
  | JArr "jsval list"
  | JObj "(string \<times> jsval) list"

text \<open>A thrown \<^verbatim>\<open>Error\<close>: its \<^verbatim>\<open>name\<close> and its \<^verbatim>\<open>message\<close>.\<close>

datatype exn = Exn string string

fun exn_name :: "exn \<Rightarrow> string" where
  "exn_name (Exn n m) = n"

fun exn_message :: "exn \<Rightarrow> string" where
  "exn_message (Exn n m) = m"

text \<open>Truthiness, as \<^verbatim>\<open>||\<close>, \<^verbatim>\<open>if\<close> and \<^verbatim>\<open>?:\<close> test it.\<close>

fun truthy :: "jsval \<Rightarrow> bool" where
  "truthy JUndefined = False"
| "truthy JNull = False"
| "truthy (JBool b) = b"
| "truthy (JNum n) = (n \<noteq> Dbl 0 \<and> n \<noteq> NaN)"
| "truthy (JStr s) = (s \<noteq> [])"
| "truthy (JArr xs) = True"
| "truthy (JObj kvs) = True"

text \<open>\<^verbatim>\<open>v == null\<close>: the value is \<^verbatim>\<open>null\<close> or \<^verbatim>\<open>undefined\<close>.\<close>

fun nullish :: "jsval \<Rightarrow> bool" where
  "nullish JUndefined = True"
| "nullish JNull = True"
| "nullish v = False"

text \<open>\<^verbatim>\<open>a || b\<close> and \<^verbatim>\<open>a ?? b\<close>.\<close>

definition or_else :: "jsval \<Rightarrow> jsval \<Rightarrow> jsval" where
  "or_else a b = (if truthy a then a else b)"

definition coalesce :: "jsval \<Rightarrow> jsval \<Rightarrow> jsval" where
  "coalesce a b = (if nullish a then b else a)"

definition type_error_read :: "jsval \<Rightarrow> string \<Rightarrow> exn" where
  "type_error_read v k =
     Exn ''TypeError''
       (''Cannot read properties of '' @ (if v = JNull then ''null'' else ''undefined'')
         @ '' (reading '' @ [CHR 0x27] @ k @ [CHR 0x27] @ '')'')"

text \<open>
  \<^verbatim>\<open>v.k\<close> for the property names the handlers read. Reading a property of
  \<^verbatim>\<open>null\<close> or \<^verbatim>\<open>undefined\<close> throws a TypeError; an object gives its own property
  or \<^verbatim>\<open>undefined\<close> (none of the names read is inherited); a string and an array
  have \<^verbatim>\<open>length\<close> and nothing else under these names.
\<close>

fun get_prop :: "jsval \<Rightarrow> string \<Rightarrow> exn + jsval" where
  "get_prop JUndefined k = Inl (type_error_read JUndefined k)"
| "get_prop JNull k = Inl (type_error_read JNull k)"
| "get_prop (JObj kvs) k = Inr (case map_of kvs k of Some v \<Rightarrow> v | None \<Rightarrow> JUndefined)"
| "get_prop (JStr s) k =
     Inr (if k = ''length'' then JNum (Dbl (of_nat (length s))) else JUndefined)"
| "get_prop (JArr xs) k =
     Inr (if k = ''length'' then JNum (Dbl (of_nat (length xs))) else JUndefined)"
| "get_prop v k = Inr JUndefined"

text \<open>Comparisons of a double with 0 and with 1 (false on \<^verbatim>\<open>NaN\<close>).\<close>

fun ge0 :: "jsnum \<Rightarrow> bool" where
  "ge0 (Dbl q) = (0 \<le> q)"
| "ge0 PosInf = True"
| "ge0 NegInf = False"
| "ge0 NaN = False"

fun le1 :: "jsnum \<Rightarrow> bool" where
  "le1 (Dbl q) = (q \<le> 1)"
| "le1 PosInf = False"
| "le1 NegInf = True"
| "le1 NaN = False"

text \<open>\<^verbatim>\<open>Math.round\<close>: the nearest integer, a tie going up.\<close>

fun Math_round :: "jsnum \<Rightarrow> jsnum" where
  "Math_round (Dbl q) = Dbl (of_int \<lfloor>q + 1 / 2\<rfloor>)"
| "Math_round n = n"

subsection \<open>Property keys\<close>

text \<open>
  \<^verbatim>\<open>payload[k]\<close> turns \<^verbatim>\<open>k\<close> into a property key (a string). What matters of that
  string is whether it is the canonical decimal form of an array index, whether it is
  empty (an empty array or a \<^verbatim>\<open>null\<close> element joins to the empty string), or
  anything else. Converting an object throws a TypeError when it has an own
  \<^verbatim>\<open>toString\<close> property (which, parsed from JSON, is not callable). A whole number
  too large to print in decimal digits is kept as an index: it is beyond the length of
  any array, like the string it prints as.
\<close>

datatype keystr = Idx nat | Empty | Other

definition is_digit :: "char \<Rightarrow> bool" where
  "is_digit c = (c \<in> set ''0123456789'')"

definition digit_val :: "char \<Rightarrow> nat" where
  "digit_val c = of_char c - 48"

definition canonical_index :: "string \<Rightarrow> bool" where
  "canonical_index s = (s \<noteq> [] \<and> list_all is_digit s \<and> (s = ''0'' \<or> hd s \<noteq> CHR ''0''))"

definition decimal :: "string \<Rightarrow> nat" where
  "decimal s = foldl (\<lambda>n c. 10 * n + digit_val c) 0 s"

definition number_key :: "jsnum \<Rightarrow> keystr" where
  "number_key n =
     (case n of
        Dbl q \<Rightarrow> if 0 \<le> q \<and> of_int \<lfloor>q\<rfloor> = q then Idx (nat \<lfloor>q\<rfloor>) else Other
      | PosInf \<Rightarrow> Other | NegInf \<Rightarrow> Other | NaN \<Rightarrow> Other)"

definition string_key :: "string \<Rightarrow> keystr" where
  "string_key s =
     (if canonical_index s then Idx (decimal s) else if s = [] then Empty else Other)"

definition first_error :: "(exn + 'a) list \<Rightarrow> exn option" where
  "first_error rs =
     (case filter isl rs of [] \<Rightarrow> None | r # _ \<Rightarrow> (case r of Inl e \<Rightarrow> Some e | Inr _ \<Rightarrow> None))"

definition not_a_primitive :: exn where
  "not_a_primitive = Exn ''TypeError'' ''Cannot convert object to primitive value''"

fun to_key :: "jsval \<Rightarrow> exn + keystr" where
  "to_key JUndefined = Inr Other"
| "to_key JNull = Inr Other"
| "to_key (JBool b) = Inr Other"
| "to_key (JNum n) = Inr (number_key n)"
| "to_key (JStr s) = Inr (string_key s)"
| "to_key (JArr xs) =
     (case xs of
        [] \<Rightarrow> Inr Empty
      | [x] \<Rightarrow> (if nullish x then Inr Empty else to_key x)
      | _ \<Rightarrow> (case first_error (map to_key xs) of Some e \<Rightarrow> Inl e | None \<Rightarrow> Inr Other))"
| "to_key (JObj kvs) =
     (if ''toString'' \<in> set (map fst kvs) then Inl not_a_primitive else Inr Other)"

text \<open>
  \<^verbatim>\<open>xs[k]\<close> on an array: the element when the key is an index below the length,
  else nothing the handlers can read \<^verbatim>\<open>start\<close> or \<^verbatim>\<open>end\<close> from
  (\<^verbatim>\<open>undefined\<close>, or \<^verbatim>\<open>length\<close> or an inherited method, whose \<^verbatim>\<open>start\<close> and
  \<^verbatim>\<open>end\<close> are \<^verbatim>\<open>undefined\<close>).
\<close>

definition array_at :: "'a list \<Rightarrow> jsval \<Rightarrow> exn + 'a option" where
  "array_at xs k =
     (case to_key k of
        Inl e \<Rightarrow> Inl e
      | Inr (Idx i) \<Rightarrow> Inr (if i < length xs then Some (xs ! i) else None)
      | Inr _ \<Rightarrow> Inr None)"

section \<open>The request, the services and what a run does\<close>

text \<open>
  \<^verbatim>\<open>req.file\<close> as multer's disk storage fills it, and the text fields of
  \<^verbatim>\<open>req.body\<close> that the handlers read (\<^verbatim>\<open>undefined\<close> when the form has none).
\<close>

record upload =
  file_path :: string
  originalname :: string
  mimetype :: string

record request =
  req_file :: "upload option"
  body_title :: jsval
  body_meeting_type :: jsval

text \<open>
  The reply of \<^verbatim>\<open>groq.audio.transcriptions.create\<close>, typed as the SDK declares it.
  The fields the handlers guard are optional: \<^verbatim>\<open>text\<close> may be missing,
  \<^verbatim>\<open>segments\<close> may be no array, \<^verbatim>\<open>duration\<close> may be missing.
\<close>

record segment =
  seg_start :: jsval
  seg_end :: jsval
  seg_text :: jsval

record transcription =
  t_text :: "string option"
  t_segments :: "segment list option"
  t_duration :: "jsnum option"
  t_words :: jsval

text \<open>
  The reply of \<^verbatim>\<open>groq.chat.completions.create\<close>, reduced to what the handlers read
  of it, \<^verbatim>\<open>choices[0]?.message?.content\<close>, together with what \<^verbatim>\<open>JSON.parse\<close>
  makes of that string: \<open>Absent\<close> when the content is missing or empty (the handlers
  then parse \<^verbatim>\<open>"{}"\<close>), \<open>Malformed\<close> when \<^verbatim>\<open>JSON.parse\<close> throws a SyntaxError,
  \<open>Wellformed v\<close> when it returns \<open>v\<close>.
\<close>

datatype content = Absent | Malformed | Wellformed jsval

text \<open>
  What \<^verbatim>\<open>supabase.from("meetings").insert(...).select().single()\<close> resolves to:
  \<^verbatim>\<open>data\<close> (\<open>None\<close> for \<^verbatim>\<open>null\<close>, else the \<^verbatim>\<open>id\<close> of the row) and
  \<^verbatim>\<open>error\<close> (\<open>None\<close> for \<^verbatim>\<open>null\<close>). The result of a dependent insert only
  selects the line that is logged, and the console is not modelled.
\<close>

record insert_result =
  ins_data :: "jsval option"
  ins_error :: "string option"

text \<open>
  The world outside the handler, for one request: whether \<^verbatim>\<open>fs.readFileSync\<close>
  throws, what each remote call returns or throws, what the meeting insert resolves to,
  and \<^verbatim>\<open>new Date().toISOString()\<close>.
\<close>

record env =
  read_file :: "exn option"
  transcribe :: "exn + transcription"
  overall_reply :: "exn + content"
  segment_reply :: "exn + content"
  summary_reply :: "exn + content"
  meeting_insert :: insert_result
  now_iso :: string

subsection \<open>Rows and events\<close>

record payload =
  p_index :: nat
  p_start :: jsval
  p_end :: jsval
  p_text :: jsval

text \<open>
  A row of \<^verbatim>\<open>meetings\<close>. \<open>m_transcript\<close> and \<open>cloud_path\<close> are \<open>None\<close> where the
  insert has no such column.
\<close>

record meeting_row =
  m_title :: jsval
  m_meeting_type :: jsval
  m_duration :: jsnum
  mood_score :: jsval
  dominant_emotion :: jsval
  emotion_breakdown :: jsval
  m_transcript :: "string option"
  cloud_path :: "jsval option"

text \<open>\<^verbatim>\<open>String(v)\<close>, kept as the value it renders.\<close>

datatype rendered = StringOf jsval

record transcript_row =
  tr_meeting_id :: jsval
  tr_start :: rendered
  tr_end :: rendered
  tr_text :: jsval
  tr_speaker :: "jsval option"
  tr_emotion :: jsval
  tr_emotion_score :: jsval

text \<open>
  A SegmentEmotion entry, in the response and as a row of \<^verbatim>\<open>emotions\<close> or
  \<^verbatim>\<open>emotion_segments\<close> (there the columns are \<^verbatim>\<open>start_time\<close> and
  \<^verbatim>\<open>end_time\<close>). \<open>se_meeting_id\<close> is \<open>None\<close> where the object has no such field.
\<close>

record seg_emotion =
  se_meeting_id :: "jsval option"
  segment_index :: jsval
  se_start :: jsval
  se_end :: jsval
  se_emotion :: jsval
  se_score :: jsval

record summary_row =
  sm_meeting_id :: jsval
  bullets :: jsval
  decisions :: jsval
  risks :: jsval
  follow_up_questions :: jsval

text \<open>A row of \<^verbatim>\<open>tasks\<close>; \<^verbatim>\<open>notion_sync_status\<close> is always \<^verbatim>\<open>null\<close>.\<close>

record task_row =
  tk_meeting_id :: jsval
  tk_title :: jsval
  tk_description :: jsval
  tk_owner :: jsval
  tk_due_date :: jsval
  tk_priority :: jsval
  tk_status :: jsval

text \<open>What a run does to the world, in order.\<close>

datatype event =
    ReadFile string
  | TranscribeCall string
  | OverallCall string
  | SegmentCall "payload list"
  | SummaryCall string
  | InsertMeeting meeting_row
  | InsertTranscripts "transcript_row list"
  | InsertEmotions string "seg_emotion list"
  | InsertSummary summary_row
  | InsertTasks "task_row list"
  | Unlink string

fun is_write :: "event \<Rightarrow> bool" where
  "is_write (InsertMeeting r) = True"
| "is_write (InsertTranscripts rs) = True"
| "is_write (InsertEmotions t rs) = True"
| "is_write (InsertSummary r) = True"
| "is_write (InsertTasks rs) = True"
| "is_write e = False"

fun is_dependent_write :: "event \<Rightarrow> bool" where
  "is_dependent_write (InsertTranscripts rs) = True"
| "is_dependent_write (InsertEmotions t rs) = True"
| "is_dependent_write (InsertSummary r) = True"
| "is_dependent_write (InsertTasks rs) = True"
| "is_dependent_write e = False"

fun is_overall_call :: "event \<Rightarrow> bool" where
  "is_overall_call (OverallCall t) = True"
| "is_overall_call e = False"

fun is_unlink :: "event \<Rightarrow> bool" where
  "is_unlink (Unlink p) = True"
| "is_unlink e = False"

fun is_meeting_insert :: "event \<Rightarrow> bool" where
  "is_meeting_insert (InsertMeeting r) = True"
| "is_meeting_insert e = False"

fun is_summary_call :: "event \<Rightarrow> bool" where
  "is_summary_call (SummaryCall t) = True"
| "is_summary_call e = False"

fun is_task_insert :: "event \<Rightarrow> bool" where
  "is_task_insert (InsertTasks rs) = True"
| "is_task_insert e = False"

subsection \<open>The response\<close>

text \<open>
  The object of \<^verbatim>\<open>res.json\<close> on success; \<open>summary\<close> and \<open>tasks\<close> are \<open>None\<close> in
  the handlers that extract neither.
\<close>

record result =
  meetingId :: jsval
  transcript :: string
  segments :: "segment list"
  words :: jsval
  summary :: "jsval option"
  tasks :: "jsval option"
  moodScore :: jsval
  dominantEmotion :: jsval
  emotionBreakdown :: jsval
  segmentEmotions :: "seg_emotion list"

datatype body =
    ErrorBody string
  | ErrorDetails string string
  | Result result

record response =
  status :: nat
  body :: body

subsection \<open>Sequencing\<close>

text \<open>
  A stage yields the events it caused and either the error it threw or its value. A
  throw ends the \<^verbatim>\<open>try\<close> block; the events before it have happened.
\<close>

type_synonym 'a stage = "event list \<times> (exn + 'a)"

definition andThen :: "'a stage \<Rightarrow> ('a \<Rightarrow> 'b stage) \<Rightarrow> 'b stage" where
  "andThen m k =
     (case m of
        (tr, Inl e) \<Rightarrow> (tr, Inl e)
      | (tr, Inr x) \<Rightarrow> (case k x of (tr', r) \<Rightarrow> (tr @ tr', r)))"

section \<open>Steps shared by the three handlers\<close>

text \<open>\<^verbatim>\<open>req.file.path.replace(/\\/g, "/")\<close>.\<close>

definition fixedPath :: "upload \<Rightarrow> string" where
  "fixedPath f = map (\<lambda>c. if c = CHR 0x5C then CHR ''/'' else c) (file_path f)"

text \<open>Step 1: read the upload and send it to the transcription service.\<close>

definition transcribe_stage :: "env \<Rightarrow> upload \<Rightarrow> transcription stage" where
  "transcribe_stage env f =
     (case read_file env of
        Some e \<Rightarrow> ([ReadFile (fixedPath f)], Inl e)
      | None \<Rightarrow> ([ReadFile (fixedPath f), TranscribeCall (originalname f)], transcribe env))"

text \<open>\<^verbatim>\<open>transcription.text || ""\<close> and the \<^verbatim>\<open>Array.isArray\<close> guard.\<close>

definition transcriptText :: "transcription \<Rightarrow> string" where
  "transcriptText t = (case t_text t of None \<Rightarrow> [] | Some s \<Rightarrow> s)"

definition segments_of :: "transcription \<Rightarrow> segment list" where
  "segments_of t = (case t_segments t of None \<Rightarrow> [] | Some ss \<Rightarrow> ss)"

text \<open>
  Step 2, the \<^verbatim>\<open>try\<close> block: the three fields of the parsed output, each
  \<^verbatim>\<open>?? null\<close>. A SyntaxError of \<^verbatim>\<open>JSON.parse\<close> and the TypeError of reading a
  property of \<^verbatim>\<open>null\<close> are caught, and the three fields stay \<^verbatim>\<open>null\<close>.
\<close>

definition parsed_of :: "content \<Rightarrow> exn + jsval" where
  "parsed_of c =
     (case c of
        Absent \<Rightarrow> Inr (JObj [])
      | Malformed \<Rightarrow> Inl (Exn ''SyntaxError'' ''Unexpected token'')
      | Wellformed v \<Rightarrow> Inr v)"

definition overall_fields :: "content \<Rightarrow> jsval \<times> jsval \<times> jsval" where
  "overall_fields c =
     (case parsed_of c of
        Inl e \<Rightarrow> (JNull, JNull, JNull)
      | Inr overallJson \<Rightarrow>
          (case get_prop overallJson ''overallMoodScore'' of
             Inl e \<Rightarrow> (JNull, JNull, JNull)
           | Inr m \<Rightarrow>
              (case get_prop overallJson ''dominantEmotion'' of
                 Inl e \<Rightarrow> (JNull, JNull, JNull)
               | Inr d \<Rightarrow>
                  (case get_prop overallJson ''emotionBreakdown'' of
                     Inl e \<Rightarrow> (JNull, JNull, JNull)
                   | Inr b \<Rightarrow> (coalesce m JNull, coalesce d JNull, coalesce b JNull)))))"

text \<open>
  Step 2: skipped when the transcript text is empty; the remote call stands outside the
  \<^verbatim>\<open>try\<close> block, so what it throws leaves the pipeline.
\<close>

definition overall_stage :: "env \<Rightarrow> string \<Rightarrow> (jsval \<times> jsval \<times> jsval) stage" where
  "overall_stage env text =
     (if length text > 0 then
        (case overall_reply env of
           Inl e \<Rightarrow> ([OverallCall text], Inl e)
         | Inr c \<Rightarrow> ([OverallCall text], Inr (overall_fields c)))
      else ([], Inr (JNull, JNull, JNull)))"

text \<open>\<^verbatim>\<open>segments.map((seg, index) => ({ index, start, end, text }))\<close>.\<close>

definition segmentPayload :: "segment list \<Rightarrow> payload list" where
  "segmentPayload segs =
     map (\<lambda>(i, seg). \<lparr>p_index = i, p_start = seg_start seg, p_end = seg_end seg,
                       p_text = seg_text seg\<rparr>) (enumerate 0 segs)"

text \<open>
  \<^verbatim>\<open>segmentEmotionMap\<close>, a \<^verbatim>\<open>Map\<close> from what the classifier gave as index to
  (emotion, score). The newest binding is first. It is only ever asked for a segment's
  position, a number.
\<close>

type_synonym emotion_map = "(jsval \<times> jsval \<times> jsval) list"

definition map_get :: "emotion_map \<Rightarrow> nat \<Rightarrow> (jsval \<times> jsval) option" where
  "map_get m i = map_of m (JNum (Dbl (of_nat i)))"

text \<open>\<^verbatim>\<open>segmentPayload[k]?.start ?? null\<close> and the same for \<^verbatim>\<open>end\<close>.\<close>

definition payload_start :: "payload list \<Rightarrow> jsval \<Rightarrow> exn + jsval" where
  "payload_start ps k =
     (case array_at ps k of
        Inl e \<Rightarrow> Inl e
      | Inr None \<Rightarrow> Inr JNull
      | Inr (Some p) \<Rightarrow> Inr (coalesce (p_start p) JNull))"

definition payload_end :: "payload list \<Rightarrow> jsval \<Rightarrow> exn + jsval" where
  "payload_end ps k =
     (case array_at ps k of
        Inl e \<Rightarrow> Inl e
      | Inr None \<Rightarrow> Inr JNull
      | Inr (Some p) \<Rightarrow> Inr (coalesce (p_end p) JNull))"

section \<open>The handler with summary and tasks (transcriptionRoutes.js, first version)\<close>

text \<open>
  The score kept for a segment:
  \<^verbatim>\<open>typeof s.score === "number" && s.score >= 0 && s.score <= 1 ? s.score : 0.5\<close>.
\<close>

definition score_A :: "jsval \<Rightarrow> jsval" where
  "score_A v =
     (case v of
        JNum n \<Rightarrow> if ge0 n \<and> le1 n then JNum n else JNum (Dbl (1 / 2))
      | _ \<Rightarrow> JNum (Dbl (1 / 2)))"

text \<open>
  The body of \<^verbatim>\<open>segResults.forEach\<close>. A throw (an element that is \<^verbatim>\<open>null\<close>, an
  index that cannot become a property key) ends the loop in the \<^verbatim>\<open>catch\<close> block,
  and what was collected before stays.
\<close>

fun collect_A ::
  "payload list \<Rightarrow> jsval list \<Rightarrow> emotion_map \<times> seg_emotion list
     \<Rightarrow> emotion_map \<times> seg_emotion list" where
  "collect_A ps [] acc = acc"
| "collect_A ps (s # rest) (m, rows) =
     (case get_prop s ''index'' of
        Inl e \<Rightarrow> (m, rows)
      | Inr idx \<Rightarrow>
         (case get_prop s ''emotion'' of
            Inl e \<Rightarrow> (m, rows)
          | Inr emo \<Rightarrow>
             (case get_prop s ''score'' of
                Inl e \<Rightarrow> (m, rows)
              | Inr sc \<Rightarrow>
                 (let m' = (idx, or_else emo (JStr ''neutral''), score_A sc) # m in
                  (case payload_start ps idx of
                     Inl e \<Rightarrow> (m', rows)
                   | Inr st \<Rightarrow>
                      (case payload_end ps idx of
                         Inl e \<Rightarrow> (m', rows)
                       | Inr en \<Rightarrow>
                          collect_A ps rest
                            (m', rows @ [\<lparr>se_meeting_id = None, segment_index = idx,
                                          se_start = st, se_end = en,
                                          se_emotion = or_else emo (JStr ''neutral''),
                                          se_score = score_A sc\<rparr>])))))))"

text \<open>
  \<^verbatim>\<open>Array.isArray(segJson.segments) ? segJson.segments : []\<close>, inside the
  \<^verbatim>\<open>try\<close> block.
\<close>

definition segResults_A :: "content \<Rightarrow> jsval list" where
  "segResults_A c =
     (case parsed_of c of
        Inl e \<Rightarrow> []
      | Inr segJson \<Rightarrow>
         (case get_prop segJson ''segments'' of
            Inl e \<Rightarrow> []
          | Inr (JArr xs) \<Rightarrow> xs
          | Inr _ \<Rightarrow> []))"

definition segment_stage_A ::
  "env \<Rightarrow> segment list \<Rightarrow> (emotion_map \<times> seg_emotion list) stage" where
  "segment_stage_A env segs =
     (if length segs > 0 then
        (case segment_reply env of
           Inl e \<Rightarrow> ([SegmentCall (segmentPayload segs)], Inl e)
         | Inr c \<Rightarrow>
            ([SegmentCall (segmentPayload segs)],
             Inr (collect_A (segmentPayload segs) (segResults_A c) ([], []))))
      else ([], Inr ([], [])))"

text \<open>
  \<^verbatim>\<open>transcription.duration || 0\<close>, rounded.
\<close>

definition duration_or_0 :: "transcription \<Rightarrow> jsnum" where
  "duration_or_0 t =
     (case t_duration t of
        None \<Rightarrow> Dbl 0
      | Some d \<Rightarrow> if truthy (JNum d) then d else Dbl 0)"

definition meetingTitle :: "env \<Rightarrow> upload \<Rightarrow> string" where
  "meetingTitle env f =
     (if originalname f \<noteq> [] then originalname f else ''Uploaded meeting '' @ now_iso env)"

text \<open>
  Step 4: the insert of the meeting. An error throws
  \<^verbatim>\<open>new Error("Failed to create meeting")\<close>; no error and no row throws the TypeError of
  \<^verbatim>\<open>meetingRow.id\<close>.
\<close>

definition meeting_stage_A ::
  "env \<Rightarrow> upload \<Rightarrow> transcription \<Rightarrow> jsval \<times> jsval \<times> jsval \<Rightarrow> jsval stage" where
  "meeting_stage_A env f t tone =
     (case tone of (mood, dominant, breakdown) \<Rightarrow>
        ([InsertMeeting
            \<lparr>m_title = JStr (meetingTitle env f), m_meeting_type = JStr ''generic'',
             m_duration = Math_round (duration_or_0 t), mood_score = mood,
             dominant_emotion = dominant, emotion_breakdown = breakdown,
             m_transcript = None, cloud_path = None\<rparr>],
         (case ins_error (meeting_insert env) of
            Some err \<Rightarrow> Inl (Exn ''Error'' ''Failed to create meeting'')
          | None \<Rightarrow>
             (case ins_data (meeting_insert env) of
                None \<Rightarrow> Inl (type_error_read JNull ''id'')
              | Some mid \<Rightarrow> Inr mid))))"

text \<open>Step 5: one row of \<^verbatim>\<open>transcripts\<close> per segment, if there is a segment.\<close>

definition transcriptRows_A ::
  "jsval \<Rightarrow> emotion_map \<Rightarrow> segment list \<Rightarrow> transcript_row list" where
  "transcriptRows_A mid m segs =
     map (\<lambda>(i, seg).
            (case (case map_get m i of None \<Rightarrow> (JNull, JNull) | Some emo \<Rightarrow> emo) of
               (e, sc) \<Rightarrow>
                 \<lparr>tr_meeting_id = mid, tr_start = StringOf (seg_start seg),
                  tr_end = StringOf (seg_end seg), tr_text = seg_text seg,
                  tr_speaker = Some JNull, tr_emotion = e, tr_emotion_score = sc\<rparr>))
         (enumerate 0 segs)"

definition save_transcripts_A :: "jsval \<Rightarrow> emotion_map \<Rightarrow> segment list \<Rightarrow> unit stage" where
  "save_transcripts_A mid m segs =
     (if length segs \<noteq> 0 then ([InsertTranscripts (transcriptRows_A mid m segs)], Inr ())
      else ([], Inr ()))"

text \<open>Step 6: the rows of \<^verbatim>\<open>emotions\<close>, if any entry was collected.\<close>

definition save_emotions_A :: "jsval \<Rightarrow> seg_emotion list \<Rightarrow> unit stage" where
  "save_emotions_A mid rows =
     (if length rows \<noteq> 0 then
        ([InsertEmotions ''emotions'' (map (\<lambda>e. e\<lparr>se_meeting_id := Some mid\<rparr>) rows)], Inr ())
      else ([], Inr ()))"

text \<open>
  Step 7: the summary and the tasks. Only \<^verbatim>\<open>JSON.parse\<close> stands in the \<^verbatim>\<open>try\<close>
  block; on a SyntaxError the analysis is the literal of the \<^verbatim>\<open>catch\<close> block.
\<close>

definition empty_summary :: jsval where
  "empty_summary =
     JObj [(''bullets'', JArr []), (''decisions'', JArr []), (''risks'', JArr []),
           (''followUpQuestions'', JArr [])]"

definition fallback_analysis :: jsval where
  "fallback_analysis =
     JObj [(''summary'', empty_summary), (''tasks'', JObj [(''items'', JArr [])])]"

definition analysis_of :: "content \<Rightarrow> jsval" where
  "analysis_of c = (case parsed_of c of Inl e \<Rightarrow> fallback_analysis | Inr v \<Rightarrow> v)"

text \<open>\<^verbatim>\<open>analysis.summary || { bullets: [], ... }\<close>.\<close>

definition summary_of :: "jsval \<Rightarrow> exn + jsval" where
  "summary_of analysis =
     (case get_prop analysis ''summary'' of
        Inl e \<Rightarrow> Inl e
      | Inr s \<Rightarrow> Inr (or_else s empty_summary))"

text \<open>\<^verbatim>\<open>analysis.tasks?.items || []\<close>.\<close>

definition tasks_of :: "jsval \<Rightarrow> exn + jsval" where
  "tasks_of analysis =
     (case get_prop analysis ''tasks'' of
        Inl e \<Rightarrow> Inl e
      | Inr t \<Rightarrow>
         if nullish t then Inr (JArr [])
         else (case get_prop t ''items'' of
                 Inl e \<Rightarrow> Inl e
               | Inr items \<Rightarrow> Inr (or_else items (JArr []))))"

definition summary_stage_A :: "env \<Rightarrow> string \<Rightarrow> (jsval \<times> jsval) stage" where
  "summary_stage_A env text =
     (case summary_reply env of
        Inl e \<Rightarrow> ([SummaryCall text], Inl e)
      | Inr c \<Rightarrow>
         ([SummaryCall text],
          (case summary_of (analysis_of c) of
             Inl e \<Rightarrow> Inl e
           | Inr s \<Rightarrow>
              (case tasks_of (analysis_of c) of
                 Inl e \<Rightarrow> Inl e
               | Inr ts \<Rightarrow> Inr (s, ts)))))"

text \<open>Step 8: the row of \<^verbatim>\<open>summaries\<close>, each list \<^verbatim>\<open>|| []\<close>.\<close>

definition list_field :: "jsval \<Rightarrow> string \<Rightarrow> exn + jsval" where
  "list_field v k =
     (case get_prop v k of Inl e \<Rightarrow> Inl e | Inr x \<Rightarrow> Inr (or_else x (JArr [])))"

definition summaryRow :: "jsval \<Rightarrow> jsval \<Rightarrow> exn + summary_row" where
  "summaryRow mid s =
     (case list_field s ''bullets'' of
        Inl e \<Rightarrow> Inl e
      | Inr b \<Rightarrow>
         (case list_field s ''decisions'' of
            Inl e \<Rightarrow> Inl e
          | Inr d \<Rightarrow>
             (case list_field s ''risks'' of
                Inl e \<Rightarrow> Inl e
              | Inr r \<Rightarrow>
                 (case list_field s ''followUpQuestions'' of
                    Inl e \<Rightarrow> Inl e
                  | Inr q \<Rightarrow>
                     Inr \<lparr>sm_meeting_id = mid, bullets = b, decisions = d, risks = r,
                          follow_up_questions = q\<rparr>))))"

definition save_summary_A :: "jsval \<Rightarrow> jsval \<Rightarrow> unit stage" where
  "save_summary_A mid s =
     (case summaryRow mid s of
        Inl e \<Rightarrow> ([], Inl e)
      | Inr row \<Rightarrow> ([InsertSummary row], Inr ()))"

text \<open>
  Step 9: \<^verbatim>\<open>if (tasks.length) { tasks.map(...) ... }\<close>. A value with a truthy
  \<^verbatim>\<open>length\<close> that is no array has no \<^verbatim>\<open>map\<close> to call; a task that is
  \<^verbatim>\<open>null\<close> has no \<^verbatim>\<open>title\<close> to read.
\<close>

definition taskRow :: "jsval \<Rightarrow> jsval \<Rightarrow> exn + task_row" where
  "taskRow mid t =
     (case get_prop t ''title'' of
        Inl e \<Rightarrow> Inl e
      | Inr ti \<Rightarrow>
     (case get_prop t ''description'' of
        Inl e \<Rightarrow> Inl e
      | Inr de \<Rightarrow>
     (case get_prop t ''owner'' of
        Inl e \<Rightarrow> Inl e
      | Inr ow \<Rightarrow>
     (case get_prop t ''dueDate'' of
        Inl e \<Rightarrow> Inl e
      | Inr du \<Rightarrow>
     (case get_prop t ''priority'' of
        Inl e \<Rightarrow> Inl e
      | Inr pr \<Rightarrow>
     (case get_prop t ''status'' of
        Inl e \<Rightarrow> Inl e
      | Inr st \<Rightarrow>
         Inr \<lparr>tk_meeting_id = mid, tk_title = ti, tk_description = de, tk_owner = ow,
              tk_due_date = or_else du (JStr []), tk_priority = pr, tk_status = st\<rparr>))))))"

fun taskRows :: "jsval \<Rightarrow> jsval list \<Rightarrow> exn + task_row list" where
  "taskRows mid [] = Inr []"
| "taskRows mid (t # ts) =
     (case taskRow mid t of
        Inl e \<Rightarrow> Inl e
      | Inr r \<Rightarrow> (case taskRows mid ts of Inl e \<Rightarrow> Inl e | Inr rs \<Rightarrow> Inr (r # rs)))"

definition save_tasks_A :: "jsval \<Rightarrow> jsval \<Rightarrow> unit stage" where
  "save_tasks_A mid ts =
     (case get_prop ts ''length'' of
        Inl e \<Rightarrow> ([], Inl e)
      | Inr n \<Rightarrow>
         if truthy n then
           (case ts of
              JArr xs \<Rightarrow>
                (case taskRows mid xs of
                   Inl e \<Rightarrow> ([], Inl e)
                 | Inr rows \<Rightarrow> ([InsertTasks rows], Inr ()))
            | _ \<Rightarrow> ([], Inl (Exn ''TypeError'' ''tasks.map is not a function'')))
         else ([], Inr ()))"

text \<open>The \<^verbatim>\<open>try\<close> block, step by step, ending in the cleanup and the response.\<close>

definition pipeline_A :: "env \<Rightarrow> upload \<Rightarrow> response stage" where
  "pipeline_A env f =
     andThen (transcribe_stage env f) (\<lambda>t.
     andThen (overall_stage env (transcriptText t)) (\<lambda>tone.
     andThen (segment_stage_A env (segments_of t)) (\<lambda>(segmentEmotionMap, segmentEmotionsForDB).
     andThen (meeting_stage_A env f t tone) (\<lambda>mid.
     andThen (save_transcripts_A mid segmentEmotionMap (segments_of t)) (\<lambda>u.
     andThen (save_emotions_A mid segmentEmotionsForDB) (\<lambda>u.
     andThen (summary_stage_A env (transcriptText t)) (\<lambda>(s, ts).
     andThen (save_summary_A mid s) (\<lambda>u.
     andThen (save_tasks_A mid ts) (\<lambda>u.
       ([Unlink (fixedPath f)],
        Inr \<lparr>status = 200,
             body = Result
               \<lparr>meetingId = mid, transcript = transcriptText t, segments = segments_of t,
                words = t_words t, summary = Some s, tasks = Some ts,
                moodScore = fst tone, dominantEmotion = fst (snd tone),
                emotionBreakdown = snd (snd tone),
                segmentEmotions = segmentEmotionsForDB\<rparr>\<rparr>))))))))))"

text \<open>\<^verbatim>\<open>err?.message || String(err)\<close>.\<close>

definition details_of :: "exn \<Rightarrow> string" where
  "details_of e = (if exn_message e \<noteq> [] then exn_message e else exn_name e)"

text \<open>The \<^verbatim>\<open>catch\<close> block: \<^verbatim>\<open>if (req.file?.path) fs.unlink(req.file.path, ...)\<close>.\<close>

definition catch_block :: "upload \<Rightarrow> exn \<Rightarrow> event list \<times> response" where
  "catch_block f err =
     ((if file_path f \<noteq> [] then [Unlink (file_path f)] else []),
      \<lparr>status = 500, body = ErrorDetails ''Failed to process meeting'' (details_of err)\<rparr>)"

definition no_file_response :: response where
  "no_file_response = \<lparr>status = 400, body = ErrorBody ''No audio file uploaded''\<rparr>"

definition run_handler :: "(upload \<Rightarrow> response stage) \<Rightarrow> request \<Rightarrow> event list \<times> response" where
  "run_handler pipeline req =
     (case req_file req of
        None \<Rightarrow> ([], no_file_response)
      | Some f \<Rightarrow>
         (case pipeline f of
            (tr, Inr resp) \<Rightarrow> (tr, resp)
          | (tr, Inl err) \<Rightarrow> (tr @ fst (catch_block f err), snd (catch_block f err))))"

definition handler_A :: "env \<Rightarrow> request \<Rightarrow> event list \<times> response" where
  "handler_A env req = run_handler (pipeline_A env) req"

section \<open>The handler without summary (transcriptionRoutes.js, second version)\<close>

text \<open>
  Two operations of the JavaScript runtime that the model does not fix: the number a
  string converts to, and the product of two doubles (rounded to a double).
\<close>

record runtime =
  str_to_number :: "string \<Rightarrow> jsnum"
  times :: "jsnum \<Rightarrow> jsnum \<Rightarrow> jsnum"

text \<open>
  The number a value converts to under \<^verbatim>\<open>*\<close>. An array converts through the string
  it joins to: the empty string is 0, a single element converts as itself (a boolean
  element gives \<^verbatim>\<open>"true"\<close> or \<^verbatim>\<open>"false"\<close>, no number), and a string with a comma
  is no number. An object is no number, and throws when it has an own \<^verbatim>\<open>toString\<close>.
\<close>

fun to_number :: "runtime \<Rightarrow> jsval \<Rightarrow> exn + jsnum" where
  "to_number rt JUndefined = Inr NaN"
| "to_number rt JNull = Inr (Dbl 0)"
| "to_number rt (JBool b) = Inr (Dbl (if b then 1 else 0))"
| "to_number rt (JNum n) = Inr n"
| "to_number rt (JStr s) = Inr (str_to_number rt s)"
| "to_number rt (JArr xs) =
     (case xs of
        [] \<Rightarrow> Inr (Dbl 0)
      | [x] \<Rightarrow>
          (if nullish x then Inr (Dbl 0)
           else (case x of JBool b \<Rightarrow> Inr NaN | _ \<Rightarrow> to_number rt x))
      | _ \<Rightarrow> (case first_error (map to_key xs) of Some e \<Rightarrow> Inl e | None \<Rightarrow> Inr NaN))"
| "to_number rt (JObj kvs) =
     (if ''toString'' \<in> set (map fst kvs) then Inl not_a_primitive else Inr NaN)"

text \<open>
  \<^verbatim>\<open>typeof s.score === "number" ? s.score : 0.5\<close>: the type is checked, the range
  is not.
\<close>

definition score_B :: "jsval \<Rightarrow> jsval" where
  "score_B v = (case v of JNum n \<Rightarrow> JNum n | _ \<Rightarrow> JNum (Dbl (1 / 2)))"

text \<open>
  The body of \<^verbatim>\<open>arr.forEach\<close>; \<open>mid\<close> is the \<^verbatim>\<open>meeting_id\<close> field of a
  collected entry (\<^verbatim>\<open>null\<close> here, absent in the handler of part 000).
\<close>

fun collect_B ::
  "jsval option \<Rightarrow> payload list \<Rightarrow> jsval list \<Rightarrow> emotion_map \<times> seg_emotion list
     \<Rightarrow> emotion_map \<times> seg_emotion list" where
  "collect_B mid ps [] acc = acc"
| "collect_B mid ps (s # rest) (m, rows) =
     (case get_prop s ''emotion'' of
        Inl e \<Rightarrow> (m, rows)
      | Inr emo \<Rightarrow>
         (case get_prop s ''score'' of
            Inl e \<Rightarrow> (m, rows)
          | Inr sc \<Rightarrow>
             (case get_prop s ''index'' of
                Inl e \<Rightarrow> (m, rows)
              | Inr idx \<Rightarrow>
                 (let m' = (idx, or_else emo (JStr ''neutral''), score_B sc) # m in
                  (case payload_start ps idx of
                     Inl e \<Rightarrow> (m', rows)
                   | Inr st \<Rightarrow>
                      (case payload_end ps idx of
                         Inl e \<Rightarrow> (m', rows)
                       | Inr en \<Rightarrow>
                          collect_B mid ps rest
                            (m', rows @ [\<lparr>se_meeting_id = mid, segment_index = idx,
                                          se_start = st, se_end = en,
                                          se_emotion = or_else emo (JStr ''neutral''),
                                          se_score = score_B sc\<rparr>])))))))"

text \<open>
  \<^verbatim>\<open>parsed.segments || []\<close>, inside the \<^verbatim>\<open>try\<close> block: a truthy value that is
  no array has no \<^verbatim>\<open>forEach\<close> to call, and the TypeError is caught.
\<close>

definition segResults_B :: "content \<Rightarrow> jsval list" where
  "segResults_B c =
     (case parsed_of c of
        Inl e \<Rightarrow> []
      | Inr parsed \<Rightarrow>
         (case get_prop parsed ''segments'' of
            Inl e \<Rightarrow> []
          | Inr v \<Rightarrow> (case or_else v (JArr []) of JArr xs \<Rightarrow> xs | _ \<Rightarrow> [])))"

definition segment_stage_B ::
  "jsval option \<Rightarrow> env \<Rightarrow> segment list \<Rightarrow> (emotion_map \<times> seg_emotion list) stage" where
  "segment_stage_B mid env segs =
     (if length segs > 0 then
        (case segment_reply env of
           Inl e \<Rightarrow> ([SegmentCall (segmentPayload segs)], Inl e)
         | Inr c \<Rightarrow>
            ([SegmentCall (segmentPayload segs)],
             Inr (collect_B mid (segmentPayload segs) (segResults_B c) ([], []))))
      else ([], Inr ([], [])))"

text \<open>
  \<^verbatim>\<open>transcription?.duration ? Math.round(transcription.duration) : 0\<close>.
\<close>

definition duration_B :: "transcription \<Rightarrow> jsnum" where
  "duration_B t =
     (case t_duration t of
        None \<Rightarrow> Dbl 0
      | Some d \<Rightarrow> if truthy (JNum d) then Math_round d else Dbl 0)"

text \<open>
  \<^verbatim>\<open>analysis.moodScore != null ? Math.round(analysis.moodScore * 100) : null\<close>.
\<close>

definition mood_score_B :: "runtime \<Rightarrow> jsval \<Rightarrow> exn + jsval" where
  "mood_score_B rt mood =
     (if nullish mood then Inr JNull
      else (case to_number rt mood of
              Inl e \<Rightarrow> Inl e
            | Inr n \<Rightarrow> Inr (JNum (Math_round (times rt n (Dbl 100))))))"

text \<open>
  Step 4. The row is evaluated first (and may throw); then the insert is made. The
  stage yields \<open>None\<close> when \<^verbatim>\<open>meetErr || !meetingRow\<close> holds, else the id of the row.
\<close>

definition meeting_stage_B ::
  "runtime \<Rightarrow> env \<Rightarrow> request \<Rightarrow> transcription \<Rightarrow> jsval \<times> jsval \<times> jsval
     \<Rightarrow> jsval option stage" where
  "meeting_stage_B rt env req t tone =
     (case tone of (mood, dominant, breakdown) \<Rightarrow>
        (case mood_score_B rt mood of
           Inl e \<Rightarrow> ([], Inl e)
         | Inr ms \<Rightarrow>
            ([InsertMeeting
                \<lparr>m_title = or_else (body_title req) (JStr ''Untitled Meeting''),
                 m_meeting_type = or_else (body_meeting_type req) (JStr ''generic''),
                 m_duration = duration_B t, mood_score = ms,
                 dominant_emotion = dominant, emotion_breakdown = breakdown,
                 m_transcript = Some (transcriptText t), cloud_path = Some JNull\<rparr>],
             Inr (if ins_error (meeting_insert env) \<noteq> None then None
                  else ins_data (meeting_insert env)))))"

text \<open>
  Step 5: \<^verbatim>\<open>segmentEmotionMap.get(i)?.emotion || null\<close> and the same for the score.
\<close>

definition transcriptRows_B ::
  "jsval option \<Rightarrow> jsval \<Rightarrow> emotion_map \<Rightarrow> segment list \<Rightarrow> transcript_row list" where
  "transcriptRows_B speaker mid m segs =
     map (\<lambda>(i, seg).
            \<lparr>tr_meeting_id = mid, tr_start = StringOf (seg_start seg),
             tr_end = StringOf (seg_end seg), tr_text = seg_text seg,
             tr_speaker = speaker,
             tr_emotion =
               (case map_get m i of None \<Rightarrow> JNull | Some (e, sc) \<Rightarrow> or_else e JNull),
             tr_emotion_score =
               (case map_get m i of None \<Rightarrow> JNull | Some (e, sc) \<Rightarrow> or_else sc JNull)\<rparr>)
         (enumerate 0 segs)"

definition save_transcripts_B ::
  "jsval option \<Rightarrow> jsval \<Rightarrow> emotion_map \<Rightarrow> segment list \<Rightarrow> unit stage" where
  "save_transcripts_B speaker mid m segs =
     (if length segs > 0 then
        ([InsertTranscripts (transcriptRows_B speaker mid m segs)], Inr ())
      else ([], Inr ()))"

text \<open>Step 6: \<^verbatim>\<open>{ ...row, meeting_id: meetingId }\<close> into \<^verbatim>\<open>emotion_segments\<close>.\<close>

definition save_emotions_B :: "jsval \<Rightarrow> seg_emotion list \<Rightarrow> unit stage" where
  "save_emotions_B mid rows =
     (if length rows > 0 then
        ([InsertEmotions ''emotion_segments''
            (map (\<lambda>row. row\<lparr>se_meeting_id := Some mid\<rparr>) rows)], Inr ())
      else ([], Inr ()))"

definition no_meeting_response :: response where
  "no_meeting_response = \<lparr>status = 500, body = ErrorBody ''Failed to create meeting record''\<rparr>"

definition pipeline_B :: "runtime \<Rightarrow> env \<Rightarrow> request \<Rightarrow> upload \<Rightarrow> response stage" where
  "pipeline_B rt env req f =
     andThen (transcribe_stage env f) (\<lambda>t.
     andThen (overall_stage env (transcriptText t)) (\<lambda>analysis.
     andThen (segment_stage_B (Some JNull) env (segments_of t))
       (\<lambda>(segmentEmotionMap, segmentEmotions).
     andThen (meeting_stage_B rt env req t analysis) (\<lambda>meetingRow.
       (case meetingRow of
          None \<Rightarrow> ([], Inr no_meeting_response)
        | Some mid \<Rightarrow>
     andThen (save_transcripts_B (Some (JStr ''Unknown'')) mid segmentEmotionMap (segments_of t))
       (\<lambda>u.
     andThen (save_emotions_B mid segmentEmotions) (\<lambda>u.
       ([Unlink (fixedPath f)],
        Inr \<lparr>status = 200,
             body = Result
               \<lparr>meetingId = mid, transcript = transcriptText t, segments = segments_of t,
                words = t_words t, summary = None, tasks = None,
                moodScore = fst analysis, dominantEmotion = fst (snd analysis),
                emotionBreakdown = snd (snd analysis),
                segmentEmotions = segmentEmotions\<rparr>\<rparr>))))))))"

definition handler_B :: "runtime \<Rightarrow> env \<Rightarrow> request \<Rightarrow> event list \<times> response" where
  "handler_B rt env req = run_handler (pipeline_B rt env req) req"

section \<open>The handler of part 000\<close>

text \<open>
  Steps 1 to 3 are those of the second version, with no \<^verbatim>\<open>meeting_id\<close> field in a
  collected entry (its loop reads \<^verbatim>\<open>s.index\<close> first; either order throws on the
  same elements, \<^verbatim>\<open>null\<close>). Step 4 names \<^verbatim>\<open>whisper\<close> and \<^verbatim>\<open>analysis\<close>.

  The identifiers in scope where the row of step 4 is evaluated: the imports, the
  \<^verbatim>\<open>const\<close>s of the module, the parameters of the handler and the \<^verbatim>\<open>const\<close>s and
  \<^verbatim>\<open>let\<close>s of its \<^verbatim>\<open>try\<close> block (those of the inner blocks are out of scope).
\<close>

definition declared_C :: "string list" where
  "declared_C =
     [''express'', ''multer'', ''fs'', ''File'', ''groq'', ''supabase'', ''router'', ''upload'',
      ''req'', ''res'', ''fixedPath'', ''buffer'', ''fileForGroq'', ''transcription'',
      ''transcriptText'', ''segments'', ''moodScore'', ''dominantEmotion'',
      ''emotionBreakdown'', ''segmentEmotionMap'', ''segmentEmotionsForDB'',
      ''meetingRow'', ''meetErr'', ''meetingId'']"

text \<open>Reading an identifier that is not declared throws a ReferenceError.\<close>

definition resolve :: "string list \<Rightarrow> string \<Rightarrow> exn + unit" where
  "resolve declared x =
     (if x \<in> set declared then Inr () else Inl (Exn ''ReferenceError'' (x @ '' is not defined'')))"

text \<open>
  The row of step 4, its fields evaluated in order: \<^verbatim>\<open>whisper.duration\<close> is the first
  to name an identifier out of scope, \<^verbatim>\<open>analysis.moodScore\<close> the next. The last branch
  stands for a row whose fields would come from these two names.
\<close>

definition meeting_row_C :: "request \<Rightarrow> exn + meeting_row" where
  "meeting_row_C req =
     (case resolve declared_C ''whisper'' of
        Inl e \<Rightarrow> Inl e
      | Inr u \<Rightarrow>
         (case resolve declared_C ''analysis'' of
            Inl e \<Rightarrow> Inl e
          | Inr u \<Rightarrow>
             Inr \<lparr>m_title = or_else (body_title req) (JStr ''Untitled Meeting''),
                  m_meeting_type = or_else (body_meeting_type req) (JStr ''generic''),
                  m_duration = NaN, mood_score = JUndefined,
                  dominant_emotion = JUndefined, emotion_breakdown = JUndefined,
                  m_transcript = None, cloud_path = Some JNull\<rparr>))"

definition meeting_stage_C :: "env \<Rightarrow> request \<Rightarrow> jsval option stage" where
  "meeting_stage_C env req =
     (case meeting_row_C req of
        Inl e \<Rightarrow> ([], Inl e)
      | Inr row \<Rightarrow>
         ([InsertMeeting row],
          Inr (if ins_error (meeting_insert env) \<noteq> None then None
               else ins_data (meeting_insert env))))"

text \<open>Step 6: \<^verbatim>\<open>supabase.from("emotions").insert(segmentEmotionsForDB)\<close>.\<close>

definition save_emotions_C :: "seg_emotion list \<Rightarrow> unit stage" where
  "save_emotions_C rows =
     (if length rows > 0 then ([InsertEmotions ''emotions'' rows], Inr ()) else ([], Inr ()))"

definition pipeline_C :: "env \<Rightarrow> request \<Rightarrow> upload \<Rightarrow> response stage" where
  "pipeline_C env req f =
     andThen (transcribe_stage env f) (\<lambda>t.
     andThen (overall_stage env (transcriptText t)) (\<lambda>tone.
     andThen (segment_stage_B None env (segments_of t))
       (\<lambda>(segmentEmotionMap, segmentEmotionsForDB).
     andThen (meeting_stage_C env req) (\<lambda>meetingRow.
       (case meetingRow of
          None \<Rightarrow> ([], Inr no_meeting_response)
        | Some mid \<Rightarrow>
     andThen (save_transcripts_B None mid segmentEmotionMap (segments_of t)) (\<lambda>u.
     andThen (save_emotions_C segmentEmotionsForDB) (\<lambda>u.
       ([Unlink (fixedPath f)],
        Inr \<lparr>status = 200,
             body = Result
               \<lparr>meetingId = mid, transcript = transcriptText t, segments = segments_of t,
                words = t_words t, summary = None, tasks = None,
                moodScore = fst tone, dominantEmotion = fst (snd tone),
                emotionBreakdown = snd (snd tone),
                segmentEmotions = segmentEmotionsForDB\<rparr>\<rparr>))))))))"

definition handler_C :: "env \<Rightarrow> request \<Rightarrow> event list \<times> response" where
  "handler_C env req = run_handler (pipeline_C env req) req"

section \<open>Sample requests\<close>

text \<open>
  An upload of one segment, "Hello team", 30.5 seconds long, with services that all
  answer: the overall tone is a mood of 0.5 and "happy", the one segment is "happy"
  with confidence 0.25, the summary has one bullet and no task, and the meeting row
  gets the id "m1".
\<close>

definition sample_upload :: upload where
  "sample_upload =
     \<lparr>file_path = ''tmp/abc'', originalname = ''meeting.mp3'', mimetype = ''audio/mpeg''\<rparr>"

definition sample_segment :: segment where
  "sample_segment =
     \<lparr>seg_start = JNum (Dbl 0), seg_end = JNum (Dbl 2), seg_text = JStr ''Hello team''\<rparr>"

definition sample_transcription :: transcription where
  "sample_transcription =
     \<lparr>t_text = Some ''Hello team'', t_segments = Some [sample_segment],
      t_duration = Some (Dbl (61 / 2)), t_words = JArr []\<rparr>"

definition sample_request :: request where
  "sample_request =
     \<lparr>req_file = Some sample_upload, body_title = JUndefined, body_meeting_type = JUndefined\<rparr>"

definition sample_tone :: jsval where
  "sample_tone =
     JObj [(''overallMoodScore'', JNum (Dbl (1 / 2))), (''dominantEmotion'', JStr ''happy'')]"

definition sample_segment_tone :: "jsval \<Rightarrow> jsval \<Rightarrow> jsval" where
  "sample_segment_tone idx sc =
     JObj [(''segments'',
            JArr [JObj [(''index'', idx), (''emotion'', JStr ''happy''), (''score'', sc)]])]"

definition sample_summary :: jsval where
  "sample_summary = JObj [(''summary'', JObj [(''bullets'', JArr [JStr ''Good progress''])])]"

definition sample_env :: env where
  "sample_env =
     \<lparr>read_file = None, transcribe = Inr sample_transcription,
      overall_reply = Inr (Wellformed sample_tone),
      segment_reply = Inr (Wellformed (sample_segment_tone (JNum (Dbl 0)) (JNum (Dbl (1 / 4))))),
      summary_reply = Inr (Wellformed sample_summary),
      meeting_insert = \<lparr>ins_data = Some (JStr ''m1''), ins_error = None\<rparr>,
      now_iso = ''2024-01-01T00:00:00.000Z''\<rparr>"

text \<open>A runtime whose product is exact, as the product of 0.5 and 100 is.\<close>

definition sample_runtime :: runtime where
  "sample_runtime =
     \<lparr>str_to_number = (\<lambda>s. NaN),
      times = (\<lambda>a b. case (a, b) of (Dbl x, Dbl y) \<Rightarrow> Dbl (x * y) | _ \<Rightarrow> NaN)\<rparr>"

text \<open>What the second handler answers to the sample request.\<close>

definition sample_result_B :: result where
  "sample_result_B =
     \<lparr>meetingId = JStr ''m1'', transcript = ''Hello team'', segments = [sample_segment],
      words = JArr [], summary = None, tasks = None,
      moodScore = JNum (Dbl (1 / 2)), dominantEmotion = JStr ''happy'',
      emotionBreakdown = JNull,
      segmentEmotions =
        [\<lparr>se_meeting_id = Some JNull, segment_index = JNum (Dbl 0),
          se_start = JNum (Dbl 0), se_end = JNum (Dbl 2), se_emotion = JStr ''happy'',
          se_score = JNum (Dbl (1 / 4))\<rparr>]\<rparr>"

text \<open>The same services for a recording with no speech: the transcript text is empty.\<close>

definition silent_env :: env where
  "silent_env = sample_env\<lparr>transcribe := Inr (sample_transcription\<lparr>t_text := Some []\<rparr>)\<rparr>"

text \<open>The overall-tone call fails on the network; or it returns text that is no JSON.\<close>

definition network_down_env :: env where
  "network_down_env = sample_env\<lparr>overall_reply := Inl (Exn ''Error'' ''Connection error.'')\<rparr>"

definition garbled_tone_env :: env where
  "garbled_tone_env = sample_env\<lparr>overall_reply := Inr Malformed\<rparr>"

text \<open>The segment classifier answers for a segment 5; there is only segment 0.\<close>

definition stray_index_env :: env where
  "stray_index_env =
     sample_env\<lparr>segment_reply :=
       Inr (Wellformed (sample_segment_tone (JNum (Dbl 5)) (JNum (Dbl (1 / 4)))))\<rparr>"

text \<open>A meeting insert that fails.\<close>

definition failing_insert :: insert_result where
  "failing_insert = \<lparr>ins_data = None, ins_error = Some ''insert failed''\<rparr>"

text \<open>
  The segment classifier answers with a confidence of 1.5; and the services of the
  sample with a meeting insert that fails.
\<close>

definition overconfident_env :: env where
  "overconfident_env =
     sample_env\<lparr>segment_reply :=
       Inr (Wellformed (sample_segment_tone (JNum (Dbl 0)) (JNum (Dbl (3 / 2)))))\<rparr>"

definition failed_insert_env :: env where
  "failed_insert_env = sample_env\<lparr>meeting_insert := failing_insert\<rparr>"

section \<open>Facts about sequencing and the stages\<close>

lemma fst_andThen:
  "fst (andThen m k) = fst m @ (case snd m of Inl e \<Rightarrow> [] | Inr x \<Rightarrow> fst (k x))"
  by (cases m) (auto simp: andThen_def split: sum.splits prod.splits)

lemma snd_andThen:
  "snd (andThen m k) = (case snd m of Inl e \<Rightarrow> Inl e | Inr x \<Rightarrow> snd (k x))"
  by (cases m) (auto simp: andThen_def split: sum.splits prod.splits)

lemma fst_run_handler:
  "req_file req = Some f \<Longrightarrow>
   fst (run_handler p req) =
     fst (p f) @ (case snd (p f) of Inl e \<Rightarrow> fst (catch_block f e) | Inr r \<Rightarrow> [])"
  by (cases "p f") (auto simp: run_handler_def split: sum.splits)

lemma snd_run_handler:
  "req_file req = Some f \<Longrightarrow>
   snd (run_handler p req) =
     (case snd (p f) of Inl e \<Rightarrow> snd (catch_block f e) | Inr r \<Rightarrow> r)"
  by (cases "p f") (auto simp: run_handler_def split: sum.splits)

lemma run_handler_no_file:
  "req_file req = None \<Longrightarrow> run_handler p req = ([], no_file_response)"
  by (simp add: run_handler_def)

lemma status_catch_block: "status (snd (catch_block f err)) = 500"
  by (simp add: catch_block_def)

text \<open>No stage up to the meeting insert, and no \<^verbatim>\<open>catch\<close> block, writes a dependent row.\<close>

lemma stage_no_dependent_write:
  "filter is_dependent_write (fst (transcribe_stage env f)) = []"
  "filter is_dependent_write (fst (overall_stage env txt)) = []"
  "filter is_dependent_write (fst (segment_stage_A env segs)) = []"
  "filter is_dependent_write (fst (segment_stage_B mid env segs)) = []"
  "filter is_dependent_write (fst (meeting_stage_A env f t tone)) = []"
  "filter is_dependent_write (fst (meeting_stage_B rt env req t tone)) = []"
  "filter is_dependent_write (fst (catch_block f err)) = []"
  by (auto simp: transcribe_stage_def overall_stage_def segment_stage_A_def segment_stage_B_def
        meeting_stage_A_def meeting_stage_B_def catch_block_def
      split: option.splits sum.splits prod.splits)

text \<open>No stage before the meeting insert, and no \<^verbatim>\<open>catch\<close> block, writes at all.\<close>

lemma stage_no_write:
  "filter is_write (fst (transcribe_stage env f)) = []"
  "filter is_write (fst (overall_stage env txt)) = []"
  "filter is_write (fst (segment_stage_A env segs)) = []"
  "filter is_write (fst (segment_stage_B mid env segs)) = []"
  "filter is_write (fst (catch_block f err)) = []"
  by (auto simp: transcribe_stage_def overall_stage_def segment_stage_A_def segment_stage_B_def
        catch_block_def
      split: option.splits sum.splits prod.splits)

lemma meeting_stage_A_fails:
  "ins_error (meeting_insert env) \<noteq> None \<or> ins_data (meeting_insert env) = None \<Longrightarrow>
   snd (meeting_stage_A env f t tone) \<noteq> Inr mid"
  by (auto simp: meeting_stage_A_def split: prod.splits option.splits)

lemma meeting_stage_B_fails:
  "ins_error (meeting_insert env) \<noteq> None \<or> ins_data (meeting_insert env) = None \<Longrightarrow>
   snd (meeting_stage_B rt env req t tone) \<noteq> Inr (Some mid)"
  by (auto simp: meeting_stage_B_def split: prod.splits option.splits sum.splits if_splits)

lemma meeting_stage_C_throws:
  "meeting_stage_C env req = ([], Inl (Exn ''ReferenceError'' ''whisper is not defined''))"
  by (simp add: meeting_stage_C_def meeting_row_C_def resolve_def declared_C_def)

lemma overall_stage_empty: "overall_stage env [] = ([], Inr (JNull, JNull, JNull))"
  by (simp add: overall_stage_def)

lemma transcribe_stage_value:
  "snd (transcribe_stage env f) = Inr t \<Longrightarrow> transcribe env = Inr t"
  by (auto simp: transcribe_stage_def split: option.splits)

lemma stage_no_overall_call:
  "filter is_overall_call (fst (transcribe_stage env f)) = []"
  "filter is_overall_call (fst (segment_stage_A env segs)) = []"
  "filter is_overall_call (fst (segment_stage_B mid env segs)) = []"
  "filter is_overall_call (fst (meeting_stage_A env f t tone)) = []"
  "filter is_overall_call (fst (meeting_stage_B rt env req t tone)) = []"
  "filter is_overall_call (fst (meeting_stage_C env req)) = []"
  "filter is_overall_call (fst (save_transcripts_A mid' m segs)) = []"
  "filter is_overall_call (fst (save_transcripts_B sp mid' m segs)) = []"
  "filter is_overall_call (fst (save_emotions_A mid' rows)) = []"
  "filter is_overall_call (fst (save_emotions_B mid' rows)) = []"
  "filter is_overall_call (fst (save_emotions_C rows)) = []"
  "filter is_overall_call (fst (summary_stage_A env txt)) = []"
  "filter is_overall_call (fst (save_summary_A mid' s)) = []"
  "filter is_overall_call (fst (save_tasks_A mid' ts)) = []"
  "filter is_overall_call (fst (catch_block f err)) = []"
  by (auto simp: transcribe_stage_def segment_stage_A_def segment_stage_B_def
        meeting_stage_A_def meeting_stage_B_def meeting_stage_C_def save_transcripts_A_def
        save_transcripts_B_def save_emotions_A_def save_emotions_B_def save_emotions_C_def
        summary_stage_A_def save_summary_A_def save_tasks_A_def catch_block_def
      split: option.splits sum.splits prod.splits jsval.splits)

lemma stage_no_meeting_insert:
  "InsertMeeting row \<notin> set (fst (transcribe_stage env f))"
  "InsertMeeting row \<notin> set (fst (overall_stage env txt))"
  "InsertMeeting row \<notin> set (fst (segment_stage_A env segs))"
  "InsertMeeting row \<notin> set (fst (segment_stage_B mid env segs))"
  "InsertMeeting row \<notin> set (fst (save_transcripts_A mid' m segs))"
  "InsertMeeting row \<notin> set (fst (save_transcripts_B sp mid' m segs))"
  "InsertMeeting row \<notin> set (fst (save_emotions_A mid' rows))"
  "InsertMeeting row \<notin> set (fst (save_emotions_B mid' rows))"
  "InsertMeeting row \<notin> set (fst (save_emotions_C rows))"
  "InsertMeeting row \<notin> set (fst (summary_stage_A env txt))"
  "InsertMeeting row \<notin> set (fst (save_summary_A mid' s))"
  "InsertMeeting row \<notin> set (fst (save_tasks_A mid' ts))"
  "InsertMeeting row \<notin> set (fst (catch_block f err))"
  by (auto simp: transcribe_stage_def overall_stage_def segment_stage_A_def segment_stage_B_def
        save_transcripts_A_def
        save_transcripts_B_def save_emotions_A_def save_emotions_B_def save_emotions_C_def
        summary_stage_A_def save_summary_A_def save_tasks_A_def catch_block_def
      split: option.splits sum.splits prod.splits jsval.splits)

lemma meeting_stage_A_row:
  "InsertMeeting row \<in> set (fst (meeting_stage_A env f t (JNull, JNull, JNull))) \<Longrightarrow>
   mood_score row = JNull \<and> dominant_emotion row = JNull \<and> emotion_breakdown row = JNull"
  by (auto simp: meeting_stage_A_def)

lemma meeting_stage_B_row:
  "InsertMeeting row \<in> set (fst (meeting_stage_B rt env req t (JNull, JNull, JNull))) \<Longrightarrow>
   mood_score row = JNull \<and> dominant_emotion row = JNull \<and> emotion_breakdown row = JNull"
  by (auto simp: meeting_stage_B_def mood_score_B_def)

lemma stage_no_summary_call:
  "filter is_summary_call (fst (transcribe_stage env f)) = []"
  "filter is_summary_call (fst (overall_stage env txt)) = []"
  "filter is_summary_call (fst (segment_stage_A env segs)) = []"
  "filter is_summary_call (fst (meeting_stage_A env f t tone)) = []"
  "filter is_summary_call (fst (save_transcripts_A mid' m segs)) = []"
  "filter is_summary_call (fst (save_emotions_A mid' rows)) = []"
  "filter is_summary_call (fst (catch_block f err)) = []"
  by (auto simp: transcribe_stage_def overall_stage_def segment_stage_A_def
        meeting_stage_A_def save_transcripts_A_def save_emotions_A_def catch_block_def
      split: option.splits sum.splits prod.splits)

lemma stage_no_task_insert:
  "filter is_task_insert (fst (transcribe_stage env f)) = []"
  "filter is_task_insert (fst (overall_stage env txt)) = []"
  "filter is_task_insert (fst (segment_stage_A env segs)) = []"
  "filter is_task_insert (fst (meeting_stage_A env f t tone)) = []"
  "filter is_task_insert (fst (save_transcripts_A mid' m segs)) = []"
  "filter is_task_insert (fst (save_emotions_A mid' rows)) = []"
  "filter is_task_insert (fst (catch_block f err)) = []"
  by (auto simp: transcribe_stage_def overall_stage_def segment_stage_A_def
        meeting_stage_A_def save_transcripts_A_def save_emotions_A_def catch_block_def
      split: option.splits sum.splits prod.splits)

lemma save_stages_A_succeed:
  "snd (save_transcripts_A mid m segs) = Inr ()"
  "snd (save_emotions_A mid rows) = Inr ()"
  by (simp_all add: save_transcripts_A_def save_emotions_A_def)

lemma summary_stage_A_malformed:
  "summary_reply env = Inr Malformed \<Longrightarrow>
   summary_stage_A env txt =
     ([SummaryCall txt],
      Inr (JObj [(''bullets'', JArr []), (''decisions'', JArr []), (''risks'', JArr []),
                 (''followUpQuestions'', JArr [])], JArr []))"
  by (simp add: summary_stage_A_def analysis_of_def parsed_of_def fallback_analysis_def
        summary_of_def tasks_of_def empty_summary_def or_else_def)

lemma save_summary_A_empty:
  "save_summary_A mid (JObj [(''bullets'', JArr []), (''decisions'', JArr []),
                             (''risks'', JArr []), (''followUpQuestions'', JArr [])]) =
     ([InsertSummary \<lparr>sm_meeting_id = mid, bullets = JArr [], decisions = JArr [],
                      risks = JArr [], follow_up_questions = JArr []\<rparr>], Inr ())"
  by (simp add: save_summary_A_def summaryRow_def list_field_def or_else_def)

lemma save_tasks_A_empty: "save_tasks_A mid (JArr []) = ([], Inr ())"
  by (simp add: save_tasks_A_def)

lemma overall_fields_mood:
  "fst (overall_fields c) \<noteq> JNull \<Longrightarrow>
   \<not> nullish (fst (overall_fields c))
   \<and> (\<exists>v. c = Wellformed v \<and> get_prop v ''overallMoodScore'' = Inr (fst (overall_fields c)))"
  by (cases c)
     (auto simp: overall_fields_def parsed_of_def coalesce_def split: sum.splits if_splits)

lemma overall_stage_mood:
  "snd (overall_stage env txt) = Inr tone \<Longrightarrow> fst tone \<noteq> JNull \<Longrightarrow>
   \<not> nullish (fst tone)
   \<and> (\<exists>v. overall_reply env = Inr (Wellformed v)
          \<and> get_prop v ''overallMoodScore'' = Inr (fst tone))"
  using overall_fields_mood
  by (auto simp: overall_stage_def split: if_splits sum.splits)

lemma meeting_stage_B_mood:
  "snd (meeting_stage_B rt env req t tone) = Inr x \<Longrightarrow> \<not> nullish (fst tone) \<Longrightarrow>
   \<exists>row n. fst (meeting_stage_B rt env req t tone) = [InsertMeeting row]
          \<and> to_number rt (fst tone) = Inr n
          \<and> mood_score row = JNum (Math_round (times rt n (Dbl 100)))"
  by (auto simp: meeting_stage_B_def mood_score_B_def split: prod.splits sum.splits)

lemma overall_stage_malformed:
  "overall_reply env = Inr Malformed \<Longrightarrow> txt \<noteq> [] \<Longrightarrow>
   overall_stage env txt = ([OverallCall txt], Inr (JNull, JNull, JNull))"
  by (simp add: overall_stage_def overall_fields_def parsed_of_def)

lemma overall_stage_throws:
  "overall_reply env = Inl e \<Longrightarrow> txt \<noteq> [] \<Longrightarrow>
   overall_stage env txt = ([OverallCall txt], Inl e)"
  by (simp add: overall_stage_def)

lemma transcribe_stage_ok:
  "read_file env = None \<Longrightarrow> transcribe env = Inr t \<Longrightarrow>
   transcribe_stage env f = ([ReadFile (fixedPath f), TranscribeCall (originalname f)], Inr t)"
  by (simp add: transcribe_stage_def)

lemma meeting_stage_A_ok:
  "ins_error (meeting_insert env) = None \<Longrightarrow> ins_data (meeting_insert env) = Some mid \<Longrightarrow>
   meeting_stage_A env f t (mood, dominant, breakdown) =
     ([InsertMeeting
         \<lparr>m_title = JStr (meetingTitle env f), m_meeting_type = JStr ''generic'',
          m_duration = Math_round (duration_or_0 t), mood_score = mood,
          dominant_emotion = dominant, emotion_breakdown = breakdown,
          m_transcript = None, cloud_path = None\<rparr>], Inr mid)"
  by (simp add: meeting_stage_A_def)

lemma number_key_position: "number_key (Dbl (of_nat i)) = Idx i"
  by (simp add: number_key_def)

lemma segmentPayload_nth:
  "i < length segs \<Longrightarrow>
   segmentPayload segs ! i =
     \<lparr>p_index = i, p_start = seg_start (segs ! i), p_end = seg_end (segs ! i),
      p_text = seg_text (segs ! i)\<rparr>"
  by (simp add: segmentPayload_def nth_enumerate_eq)

lemma length_segmentPayload: "length (segmentPayload segs) = length segs"
  by (simp add: segmentPayload_def)

lemma payload_start_position:
  "payload_start (segmentPayload segs) (JNum (Dbl (of_nat i))) =
     Inr (if i < length segs then coalesce (seg_start (segs ! i)) JNull else JNull)"
  by (simp add: payload_start_def array_at_def number_key_position length_segmentPayload
        segmentPayload_nth)

lemma payload_end_position:
  "payload_end (segmentPayload segs) (JNum (Dbl (of_nat i))) =
     Inr (if i < length segs then coalesce (seg_end (segs ! i)) JNull else JNull)"
  by (simp add: payload_end_def array_at_def number_key_position length_segmentPayload
        segmentPayload_nth)

lemma collect_A_rows:
  "r \<in> set (snd (collect_A ps xs (m, rows))) \<Longrightarrow>
   r \<in> set rows
   \<or> (\<exists>s \<in> set xs. get_prop s ''index'' = Inr (segment_index r)
         \<and> payload_start ps (segment_index r) = Inr (se_start r)
         \<and> payload_end ps (segment_index r) = Inr (se_end r))"
proof (induction xs arbitrary: m rows)
  case Nil
  then show ?case by simp
next
  case (Cons s xs)
  show ?case
  proof (cases "get_prop s ''index''")
    case (Inl e)
    with Cons.prems show ?thesis by simp
  next
    case idx: (Inr idx)
    show ?thesis
    proof (cases "get_prop s ''emotion''")
      case (Inl e)
      with Cons.prems idx show ?thesis by simp
    next
      case emo: (Inr emo)
      show ?thesis
      proof (cases "get_prop s ''score''")
        case (Inl e)
        with Cons.prems idx emo show ?thesis by simp
      next
        case sc: (Inr sc)
        show ?thesis
        proof (cases "payload_start ps idx")
          case (Inl e)
          with Cons.prems idx emo sc show ?thesis by simp
        next
          case st: (Inr st)
          show ?thesis
          proof (cases "payload_end ps idx")
            case (Inl e)
            with Cons.prems idx emo sc st show ?thesis by simp
          next
            case en: (Inr en)
            from Cons.prems idx emo sc st en
            have "r \<in> set (snd (collect_A ps xs
                    ((idx, or_else emo (JStr ''neutral''), score_A sc) # m,
                     rows @ [\<lparr>se_meeting_id = None, segment_index = idx, se_start = st,
                               se_end = en, se_emotion = or_else emo (JStr ''neutral''),
                               se_score = score_A sc\<rparr>])))"
              by simp
            from Cons.IH[OF this] idx st en show ?thesis by auto
          qed
        qed
      qed
    qed
  qed
qed


lemma segment_stage_A_rows:
  "snd (segment_stage_A env segs) = Inr (m, rows) \<Longrightarrow> r \<in> set rows \<Longrightarrow>
   \<exists>c s. segment_reply env = Inr c \<and> s \<in> set (segResults_A c)
        \<and> get_prop s ''index'' = Inr (segment_index r)
        \<and> payload_start (segmentPayload segs) (segment_index r) = Inr (se_start r)
        \<and> payload_end (segmentPayload segs) (segment_index r) = Inr (se_end r)"
proof -
  assume a: "snd (segment_stage_A env segs) = Inr (m, rows)" and r: "r \<in> set rows"
  show ?thesis
  proof (cases "length segs > 0")
    case False
    with a r show ?thesis by (simp add: segment_stage_A_def)
  next
    case True
    with a obtain c where c: "segment_reply env = Inr c"
      and rows: "collect_A (segmentPayload segs) (segResults_A c) ([], []) = (m, rows)"
      by (auto simp: segment_stage_A_def split: sum.splits)
    from r rows have "r \<in> set (snd (collect_A (segmentPayload segs) (segResults_A c) ([], [])))"
      by simp
    from collect_A_rows[OF this] c show ?thesis by auto
  qed
qed

lemma stage_no_emotion_insert:
  "InsertEmotions tbl rs \<notin> set (fst (transcribe_stage env f))"
  "InsertEmotions tbl rs \<notin> set (fst (overall_stage env txt))"
  "InsertEmotions tbl rs \<notin> set (fst (segment_stage_A env segs))"
  "InsertEmotions tbl rs \<notin> set (fst (meeting_stage_A env f t tone))"
  "InsertEmotions tbl rs \<notin> set (fst (save_transcripts_A mid' m segs))"
  "InsertEmotions tbl rs \<notin> set (fst (summary_stage_A env txt))"
  "InsertEmotions tbl rs \<notin> set (fst (save_summary_A mid' s))"
  "InsertEmotions tbl rs \<notin> set (fst (save_tasks_A mid' ts))"
  "InsertEmotions tbl rs \<notin> set (fst (catch_block f err))"
  by (auto simp: transcribe_stage_def overall_stage_def segment_stage_A_def
        meeting_stage_A_def save_transcripts_A_def
        summary_stage_A_def save_summary_A_def save_tasks_A_def catch_block_def
      split: option.splits sum.splits prod.splits jsval.splits)

lemma save_emotions_A_rows:
  "InsertEmotions tbl rs \<in> set (fst (save_emotions_A mid rows)) \<Longrightarrow>
   rs = map (\<lambda>e. e\<lparr>se_meeting_id := Some mid\<rparr>) rows"
  by (auto simp: save_emotions_A_def split: if_splits)

lemma score_A_cases:
  "score_A v = JNum (Dbl (1 / 2)) \<or> (\<exists>q. score_A v = JNum (Dbl q) \<and> 0 \<le> q \<and> q \<le> 1)"
proof (cases v)
  case (JNum n)
  then show ?thesis by (cases n) (simp_all add: score_A_def)
qed (simp_all add: score_A_def)

lemma score_A_in_range: "\<exists>q. score_A v = JNum (Dbl q) \<and> 0 \<le> q \<and> q \<le> 1"
  using score_A_cases[of v]
proof
  assume "score_A v = JNum (Dbl (1 / 2))"
  then have "score_A v = JNum (Dbl (1 / 2)) \<and> (0::rat) \<le> 1 / 2 \<and> (1 / 2 :: rat) \<le> 1"
    by simp
  then show ?thesis by blast
qed

lemma or_else_neutral: "truthy (or_else emo (JStr ''neutral''))"
  by (simp add: or_else_def)

lemma collect_A_scores:
  "r \<in> set (snd (collect_A ps xs (m, rows))) \<Longrightarrow>
   r \<in> set rows
   \<or> (\<exists>sc emo. se_score r = score_A sc \<and> se_emotion r = or_else emo (JStr ''neutral''))"
proof (induction xs arbitrary: m rows)
  case Nil
  then show ?case by simp
next
  case (Cons s xs)
  show ?case
  proof (cases "collect_A ps (s # xs) (m, rows) = (m, rows)
      \<or> (\<exists>idx emo sc. collect_A ps (s # xs) (m, rows)
            = ((idx, or_else emo (JStr ''neutral''), score_A sc) # m, rows))")
    case True
    with Cons.prems show ?thesis by auto
  next
    case False
    then obtain idx emo sc st en where
      "collect_A ps (s # xs) (m, rows) =
         collect_A ps xs
           ((idx, or_else emo (JStr ''neutral''), score_A sc) # m,
            rows @ [\<lparr>se_meeting_id = None, segment_index = idx, se_start = st, se_end = en,
                      se_emotion = or_else emo (JStr ''neutral''), se_score = score_A sc\<rparr>])"
      by (auto split: sum.splits simp: Let_def)
    with Cons.prems Cons.IH show ?thesis by fastforce
  qed
qed

lemma stage_no_unlink:
  "filter is_unlink (fst (transcribe_stage env f)) = []"
  "filter is_unlink (fst (overall_stage env txt)) = []"
  "filter is_unlink (fst (segment_stage_A env segs)) = []"
  "filter is_unlink (fst (meeting_stage_A env f t tone)) = []"
  "filter is_unlink (fst (save_transcripts_A mid' m segs)) = []"
  "filter is_unlink (fst (save_emotions_A mid' rows)) = []"
  "filter is_unlink (fst (summary_stage_A env txt)) = []"
  "filter is_unlink (fst (save_summary_A mid' s)) = []"
  "filter is_unlink (fst (save_tasks_A mid' ts)) = []"
  by (auto simp: transcribe_stage_def overall_stage_def segment_stage_A_def
        meeting_stage_A_def save_transcripts_A_def save_emotions_A_def
        summary_stage_A_def save_summary_A_def save_tasks_A_def
      split: option.splits sum.splits prod.splits jsval.splits)

text \<open>Unfolding a handler on a given request.\<close>

lemmas value_defs =
  or_else_def coalesce_def type_error_read_def 
  is_digit_def digit_val_def canonical_index_def
  decimal_def number_key_def string_key_def first_error_def not_a_primitive_def 
  array_at_def details_of_def 

lemmas stage_defs =
  andThen_def run_handler_def catch_block_def no_file_response_def no_meeting_response_def
  fixedPath_def transcribe_stage_def transcriptText_def segments_of_def parsed_of_def
  overall_fields_def overall_stage_def segmentPayload_def map_get_def payload_start_def
  payload_end_def

lemmas handler_A_defs =
  handler_A_def pipeline_A_def score_A_def segResults_A_def
  segment_stage_A_def duration_or_0_def meetingTitle_def meeting_stage_A_def
  transcriptRows_A_def save_transcripts_A_def save_emotions_A_def empty_summary_def
  fallback_analysis_def analysis_of_def summary_of_def tasks_of_def summary_stage_A_def
  list_field_def summaryRow_def save_summary_A_def taskRow_def 
  save_tasks_A_def

lemmas handler_B_defs =
  handler_B_def pipeline_B_def score_B_def segResults_B_def
  segment_stage_B_def duration_B_def mood_score_B_def meeting_stage_B_def
  transcriptRows_B_def save_transcripts_B_def save_emotions_B_def

lemmas handler_C_defs =
  handler_C_def pipeline_C_def score_B_def segResults_B_def
  segment_stage_B_def declared_C_def resolve_def meeting_row_C_def meeting_stage_C_def
  transcriptRows_B_def save_transcripts_B_def save_emotions_C_def

lemmas sample_defs =
  sample_upload_def sample_segment_def sample_transcription_def sample_request_def
  sample_tone_def sample_segment_tone_def sample_summary_def sample_env_def
  sample_runtime_def failing_insert_def silent_env_def sample_result_B_def
  network_down_env_def garbled_tone_env_def stray_index_env_def overconfident_env_def
  failed_insert_env_def

section \<open>The claims\<close>

subsection \<open>A request with no file\<close>

text \<open>
  Claim C9. A request with no audio file attached gets HTTP 400 with exactly the body
  \<^verbatim>\<open>{"error":"No audio file uploaded"}\<close>, and nothing else happens: the run has no
  event, so no external call and no persistence write. This holds for each of the three
  handlers.
\<close>

theorem no_file_is_400:
  assumes "req_file req = None"
  shows "handler_A env req = ([], \<lparr>status = 400, body = ErrorBody ''No audio file uploaded''\<rparr>)
       \<and> handler_B rt env req = ([], \<lparr>status = 400, body = ErrorBody ''No audio file uploaded''\<rparr>)
       \<and> handler_C env req = ([], \<lparr>status = 400, body = ErrorBody ''No audio file uploaded''\<rparr>)"
  using assms
  by (simp add: handler_A_def handler_B_def handler_C_def run_handler_def no_file_response_def)

theorem no_file_is_400_witness:
  "req_file (sample_request\<lparr>req_file := None\<rparr>) = None
   \<and> handler_A sample_env (sample_request\<lparr>req_file := None\<rparr>)
       = ([], \<lparr>status = 400, body = ErrorBody ''No audio file uploaded''\<rparr>)
   \<and> handler_B sample_runtime sample_env (sample_request\<lparr>req_file := None\<rparr>)
       = ([], \<lparr>status = 400, body = ErrorBody ''No audio file uploaded''\<rparr>)
   \<and> handler_C sample_env (sample_request\<lparr>req_file := None\<rparr>)
       = ([], \<lparr>status = 400, body = ErrorBody ''No audio file uploaded''\<rparr>)"
proof -
  have h: "req_file (sample_request\<lparr>req_file := None\<rparr>) = None" by simp
  from no_file_is_400 [OF h, of sample_env sample_runtime] h show ?thesis by simp
qed

subsection \<open>A failed meeting insert\<close>

text \<open>
  Claim C4. When the insert of the meeting fails (an error) or returns no row, a request
  that got as far as that insert is answered with HTTP 500, and no transcript, emotion,
  summary or task row is written. This holds for both handlers of
  \<^verbatim>\<open>transcriptionRoutes.js\<close>.
\<close>

theorem meeting_insert_failure_is_fatal:
  assumes "ins_error (meeting_insert env) \<noteq> None \<or> ins_data (meeting_insert env) = None"
  shows "(filter is_meeting_insert (fst (handler_A env req)) \<noteq> [] \<longrightarrow>
            status (snd (handler_A env req)) = 500)
       \<and> filter is_dependent_write (fst (handler_A env req)) = []
       \<and> (filter is_meeting_insert (fst (handler_B rt env req)) \<noteq> [] \<longrightarrow>
            status (snd (handler_B rt env req)) = 500)
       \<and> filter is_dependent_write (fst (handler_B rt env req)) = []"
proof (cases "req_file req")
  case None
  then show ?thesis by (simp add: handler_A_def handler_B_def run_handler_no_file)
next
  case (Some f)
  have "status (snd (handler_A env req)) = 500"
    by (simp add: handler_A_def snd_run_handler[OF Some] pipeline_A_def snd_andThen
          status_catch_block meeting_stage_A_fails[OF assms]
        split: sum.splits prod.splits)
  moreover have "filter is_dependent_write (fst (handler_A env req)) = []"
    by (simp add: handler_A_def fst_run_handler[OF Some] pipeline_A_def fst_andThen snd_andThen
          stage_no_dependent_write meeting_stage_A_fails[OF assms]
        split: sum.splits prod.splits)
  moreover have "status (snd (handler_B rt env req)) = 500"
    by (simp add: handler_B_def snd_run_handler[OF Some] pipeline_B_def snd_andThen
          status_catch_block no_meeting_response_def meeting_stage_B_fails[OF assms]
        split: sum.splits prod.splits option.splits)
  moreover have "filter is_dependent_write (fst (handler_B rt env req)) = []"
    by (simp add: handler_B_def fst_run_handler[OF Some] pipeline_B_def fst_andThen snd_andThen
          stage_no_dependent_write meeting_stage_B_fails[OF assms]
        split: sum.splits prod.splits option.splits)
  ultimately show ?thesis by simp
qed

theorem meeting_insert_failure_is_fatal_witness:
  "ins_error (meeting_insert (sample_env\<lparr>meeting_insert := failing_insert\<rparr>)) = Some ''insert failed''
   \<and> filter is_meeting_insert (fst (handler_A (sample_env\<lparr>meeting_insert := failing_insert\<rparr>) sample_request)) \<noteq> []
   \<and> status (snd (handler_A (sample_env\<lparr>meeting_insert := failing_insert\<rparr>) sample_request)) = 500
   \<and> filter is_dependent_write (fst (handler_A (sample_env\<lparr>meeting_insert := failing_insert\<rparr>) sample_request)) = []
   \<and> filter is_meeting_insert (fst (handler_B sample_runtime (sample_env\<lparr>meeting_insert := failing_insert\<rparr>) sample_request)) \<noteq> []
   \<and> status (snd (handler_B sample_runtime (sample_env\<lparr>meeting_insert := failing_insert\<rparr>) sample_request)) = 500
   \<and> filter is_dependent_write (fst (handler_B sample_runtime (sample_env\<lparr>meeting_insert := failing_insert\<rparr>) sample_request)) = []"
proof -
  have h: "ins_error (meeting_insert (sample_env\<lparr>meeting_insert := failing_insert\<rparr>)) \<noteq> None
         \<or> ins_data (meeting_insert (sample_env\<lparr>meeting_insert := failing_insert\<rparr>)) = None"
    by (simp add: failing_insert_def)
  have a: "filter is_meeting_insert (fst (handler_A (sample_env\<lparr>meeting_insert := failing_insert\<rparr>) sample_request)) \<noteq> []"
    by (simp add: value_defs stage_defs handler_A_defs sample_defs failing_insert_def enumerate_eq_zip)
  have b: "filter is_meeting_insert (fst (handler_B sample_runtime (sample_env\<lparr>meeting_insert := failing_insert\<rparr>) sample_request)) \<noteq> []"
    by (simp add: value_defs stage_defs handler_B_defs sample_defs failing_insert_def enumerate_eq_zip)
  from meeting_insert_failure_is_fatal [OF h, of sample_request sample_runtime] a b
  show ?thesis by (simp add: failing_insert_def)
qed

subsection \<open>The handler of part 000 never persists\<close>

text \<open>
  Claim C6. In the handler of part 000 the row of the meeting insert names
  \<^verbatim>\<open>whisper\<close> and \<^verbatim>\<open>analysis\<close>, which are not declared. For a request with a
  file whose transcription succeeds the handler answers HTTP 500 and writes nothing,
  neither the meeting row nor a dependent row; when the two tone calls do not throw
  before, the error reported is that of reading \<^verbatim>\<open>whisper\<close>.
\<close>

theorem part_000_never_persists:
  assumes "req_file req = Some f" and "read_file env = None" and "transcribe env = Inr t"
  shows "''whisper'' \<notin> set declared_C \<and> ''analysis'' \<notin> set declared_C
       \<and> status (snd (handler_C env req)) = 500
       \<and> filter is_write (fst (handler_C env req)) = []
       \<and> ((transcriptText t = [] \<or> \<not> isl (overall_reply env))
            \<and> (segments_of t = [] \<or> \<not> isl (segment_reply env)) \<longrightarrow>
          body (snd (handler_C env req))
            = ErrorDetails ''Failed to process meeting'' ''whisper is not defined'')"
proof -
  have 1: "status (snd (handler_C env req)) = 500"
    by (simp add: handler_C_def snd_run_handler[OF assms(1)] pipeline_C_def snd_andThen
          meeting_stage_C_throws status_catch_block split: sum.splits prod.splits)
  have 2: "filter is_write (fst (handler_C env req)) = []"
    by (simp add: handler_C_def fst_run_handler[OF assms(1)] pipeline_C_def fst_andThen
          snd_andThen meeting_stage_C_throws stage_no_write split: sum.splits prod.splits)
  have 3: "body (snd (handler_C env req))
            = ErrorDetails ''Failed to process meeting'' ''whisper is not defined''"
    if "transcriptText t = [] \<or> \<not> isl (overall_reply env)"
      and "segments_of t = [] \<or> \<not> isl (segment_reply env)"
    using that assms(2,3)
    by (auto simp: handler_C_def snd_run_handler[OF assms(1)] pipeline_C_def snd_andThen
          meeting_stage_C_throws catch_block_def details_of_def transcribe_stage_def
          overall_stage_def segment_stage_B_def
        split: sum.splits prod.splits)
  show ?thesis using 1 2 3 by (simp add: declared_C_def)
qed

theorem part_000_never_persists_witness:
  "req_file sample_request = Some sample_upload \<and> read_file sample_env = None
   \<and> transcribe sample_env = Inr sample_transcription
   \<and> status (snd (handler_C sample_env sample_request)) = 500
   \<and> filter is_write (fst (handler_C sample_env sample_request)) = []
   \<and> \<not> isl (overall_reply sample_env) \<and> \<not> isl (segment_reply sample_env)
   \<and> body (snd (handler_C sample_env sample_request))
       = ErrorDetails ''Failed to process meeting'' ''whisper is not defined''"
proof -
  have h: "req_file sample_request = Some sample_upload" "read_file sample_env = None"
    "transcribe sample_env = Inr sample_transcription"
    by (simp_all add: sample_defs)
  have g: "\<not> isl (overall_reply sample_env)" "\<not> isl (segment_reply sample_env)"
    by (simp_all add: sample_defs)
  from part_000_never_persists [OF h] h g show ?thesis by simp
qed

subsection \<open>An empty transcript\<close>

text \<open>
  Claim C7. When the transcript text is empty the overall-tone stage is skipped: no
  overall-tone call is made, and mood score, dominant emotion and emotion breakdown are
  \<^verbatim>\<open>null\<close> in the response and in the meeting row. This holds for the two handlers
  of \<^verbatim>\<open>transcriptionRoutes.js\<close>; the handler of part 000 makes no such call either.
\<close>

theorem empty_transcript_skips_overall_tone:
  assumes "transcribe env = Inr t" and "transcriptText t = []"
  shows "filter is_overall_call (fst (handler_A env req)) = []
       \<and> (\<forall>r. body (snd (handler_A env req)) = Result r \<longrightarrow>
            moodScore r = JNull \<and> dominantEmotion r = JNull \<and> emotionBreakdown r = JNull)
       \<and> (\<forall>row. InsertMeeting row \<in> set (fst (handler_A env req)) \<longrightarrow>
            mood_score row = JNull \<and> dominant_emotion row = JNull
            \<and> emotion_breakdown row = JNull)
       \<and> filter is_overall_call (fst (handler_B rt env req)) = []
       \<and> (\<forall>r. body (snd (handler_B rt env req)) = Result r \<longrightarrow>
            moodScore r = JNull \<and> dominantEmotion r = JNull \<and> emotionBreakdown r = JNull)
       \<and> (\<forall>row. InsertMeeting row \<in> set (fst (handler_B rt env req)) \<longrightarrow>
            mood_score row = JNull \<and> dominant_emotion row = JNull
            \<and> emotion_breakdown row = JNull)
       \<and> filter is_overall_call (fst (handler_C env req)) = []"
proof (cases "req_file req")
  case None
  then show ?thesis
    by (simp add: handler_A_def handler_B_def handler_C_def run_handler_no_file
          no_file_response_def)
next
  case (Some f)
  have t: "snd (transcribe_stage env f) = Inr t' \<Longrightarrow> transcriptText t' = []" for t'
    using assms by (auto dest: transcribe_stage_value)
  have a1: "filter is_overall_call (fst (handler_A env req)) = []"
    by (auto simp: handler_A_def fst_run_handler[OF Some] pipeline_A_def fst_andThen
          snd_andThen stage_no_overall_call t overall_stage_empty
        split: sum.splits prod.splits)
  have a2: "moodScore r = JNull \<and> dominantEmotion r = JNull \<and> emotionBreakdown r = JNull"
    if "body (snd (handler_A env req)) = Result r" for r
    using that
    by (auto simp: handler_A_def snd_run_handler[OF Some] pipeline_A_def
          snd_andThen t overall_stage_empty catch_block_def
        split: sum.splits prod.splits)
  have a3: "mood_score row = JNull \<and> dominant_emotion row = JNull
            \<and> emotion_breakdown row = JNull"
    if "InsertMeeting row \<in> set (fst (handler_A env req))" for row
    using that
    by (auto simp: handler_A_def fst_run_handler[OF Some] pipeline_A_def fst_andThen
          snd_andThen stage_no_meeting_insert t overall_stage_empty
        split: sum.splits prod.splits dest: meeting_stage_A_row)
  have b1: "filter is_overall_call (fst (handler_B rt env req)) = []"
    by (auto simp: handler_B_def fst_run_handler[OF Some] pipeline_B_def fst_andThen
          snd_andThen stage_no_overall_call t overall_stage_empty
        split: sum.splits prod.splits option.splits)
  have b2: "moodScore r = JNull \<and> dominantEmotion r = JNull \<and> emotionBreakdown r = JNull"
    if "body (snd (handler_B rt env req)) = Result r" for r
    using that
    by (auto simp: handler_B_def snd_run_handler[OF Some] pipeline_B_def
          snd_andThen t overall_stage_empty catch_block_def no_meeting_response_def
          save_transcripts_B_def save_emotions_B_def
        split: sum.splits prod.splits option.splits if_splits)
  have b3: "mood_score row = JNull \<and> dominant_emotion row = JNull
            \<and> emotion_breakdown row = JNull"
    if "InsertMeeting row \<in> set (fst (handler_B rt env req))" for row
    using that
    by (auto simp: handler_B_def fst_run_handler[OF Some] pipeline_B_def fst_andThen
          snd_andThen stage_no_meeting_insert t overall_stage_empty
        split: sum.splits prod.splits option.splits dest: meeting_stage_B_row)
  have c1: "filter is_overall_call (fst (handler_C env req)) = []"
    by (auto simp: handler_C_def fst_run_handler[OF Some] pipeline_C_def fst_andThen
          snd_andThen stage_no_overall_call t overall_stage_empty
        split: sum.splits prod.splits option.splits)
  show ?thesis using a1 a2 a3 b1 b2 b3 c1 by blast
qed

theorem empty_transcript_skips_overall_tone_witness:
  "transcribe silent_env = Inr (sample_transcription\<lparr>t_text := Some []\<rparr>)
   \<and> transcriptText (sample_transcription\<lparr>t_text := Some []\<rparr>) = []
   \<and> filter is_overall_call (fst (handler_A silent_env sample_request)) = []
   \<and> filter is_overall_call (fst (handler_B sample_runtime silent_env sample_request)) = []
   \<and> status (snd (handler_A silent_env sample_request)) = 200"
proof -
  have h: "transcribe silent_env = Inr (sample_transcription\<lparr>t_text := Some []\<rparr>)"
    "transcriptText (sample_transcription\<lparr>t_text := Some []\<rparr>) = []"
    by (simp_all add: silent_env_def sample_defs transcriptText_def)
  have g: "status (snd (handler_A silent_env sample_request)) = 200"
    by (simp add: silent_env_def value_defs stage_defs handler_A_defs sample_defs
          enumerate_eq_zip)
  from empty_transcript_skips_overall_tone [OF h, of sample_request sample_runtime] h g
  show ?thesis by simp
qed

subsection \<open>A summary that does not parse\<close>

text \<open>
  Claim C8. In the handler that extracts summary and tasks, when the extraction call was
  made and its output does not parse as JSON, the summary is the one with four empty
  lists and the task list is empty; the request is answered with HTTP 200, the summary
  row is written with four empty lists, and no task row is written.
\<close>

theorem summary_parse_failure_is_absorbed:
  assumes "summary_reply env = Inr Malformed"
    and "filter is_summary_call (fst (handler_A env req)) \<noteq> []"
  shows "status (snd (handler_A env req)) = 200
       \<and> (\<exists>r. body (snd (handler_A env req)) = Result r
              \<and> summary r = Some (JObj [(''bullets'', JArr []), (''decisions'', JArr []),
                                        (''risks'', JArr []), (''followUpQuestions'', JArr [])])
              \<and> tasks r = Some (JArr []))
       \<and> (\<exists>mid. InsertSummary \<lparr>sm_meeting_id = mid, bullets = JArr [], decisions = JArr [],
                                 risks = JArr [], follow_up_questions = JArr []\<rparr>
                   \<in> set (fst (handler_A env req)))
       \<and> filter is_task_insert (fst (handler_A env req)) = []"
proof (cases "req_file req")
  case None
  with assms(2) show ?thesis by (simp add: handler_A_def run_handler_no_file)
next
  case (Some f)
  note malformed = summary_stage_A_malformed[OF assms(1)]
  have reached: "\<exists>t tone m rows mid.
      snd (transcribe_stage env f) = Inr t \<and> snd (overall_stage env (transcriptText t)) = Inr tone
      \<and> snd (segment_stage_A env (segments_of t)) = Inr (m, rows)
      \<and> snd (meeting_stage_A env f t tone) = Inr mid"
    using assms(2)
    by (auto simp: handler_A_def fst_run_handler[OF Some] pipeline_A_def fst_andThen
          snd_andThen stage_no_summary_call
        split: sum.splits prod.splits)
  then obtain t tone m rows mid where st:
    "snd (transcribe_stage env f) = Inr t" "snd (overall_stage env (transcriptText t)) = Inr tone"
    "snd (segment_stage_A env (segments_of t)) = Inr (m, rows)"
    "snd (meeting_stage_A env f t tone) = Inr mid"
    by blast
  have 1: "status (snd (handler_A env req)) = 200"
    by (simp add: handler_A_def snd_run_handler[OF Some] pipeline_A_def snd_andThen st
          save_stages_A_succeed malformed save_summary_A_empty save_tasks_A_empty)
  have 2: "\<exists>r. body (snd (handler_A env req)) = Result r
              \<and> summary r = Some (JObj [(''bullets'', JArr []), (''decisions'', JArr []),
                                        (''risks'', JArr []), (''followUpQuestions'', JArr [])])
              \<and> tasks r = Some (JArr [])"
    by (simp add: handler_A_def snd_run_handler[OF Some] pipeline_A_def snd_andThen st
          save_stages_A_succeed malformed save_summary_A_empty save_tasks_A_empty)
  have 3: "InsertSummary \<lparr>sm_meeting_id = mid, bullets = JArr [], decisions = JArr [],
                          risks = JArr [], follow_up_questions = JArr []\<rparr>
             \<in> set (fst (handler_A env req))"
    by (simp add: handler_A_def fst_run_handler[OF Some] pipeline_A_def fst_andThen
          snd_andThen st save_stages_A_succeed malformed save_summary_A_empty
          save_tasks_A_empty)
  have 4: "filter is_task_insert (fst (handler_A env req)) = []"
    by (simp add: handler_A_def fst_run_handler[OF Some] pipeline_A_def fst_andThen
          snd_andThen st save_stages_A_succeed malformed save_summary_A_empty
          save_tasks_A_empty stage_no_task_insert)
  show ?thesis using 1 2 3 4 by blast
qed

theorem summary_parse_failure_is_absorbed_witness:
  "summary_reply (sample_env\<lparr>summary_reply := Inr Malformed\<rparr>) = Inr Malformed
   \<and> filter is_summary_call (fst (handler_A (sample_env\<lparr>summary_reply := Inr Malformed\<rparr>) sample_request)) \<noteq> []
   \<and> status (snd (handler_A (sample_env\<lparr>summary_reply := Inr Malformed\<rparr>) sample_request)) = 200
   \<and> filter is_task_insert (fst (handler_A (sample_env\<lparr>summary_reply := Inr Malformed\<rparr>) sample_request)) = []"
proof -
  have h: "summary_reply (sample_env\<lparr>summary_reply := Inr Malformed\<rparr>) = Inr Malformed"
    by simp
  have g: "filter is_summary_call
             (fst (handler_A (sample_env\<lparr>summary_reply := Inr Malformed\<rparr>) sample_request)) \<noteq> []"
    by (simp add: value_defs stage_defs handler_A_defs sample_defs enumerate_eq_zip)
  from summary_parse_failure_is_absorbed [OF h g] h g show ?thesis by simp
qed

subsection \<open>Two scales of the mood score\<close>

text \<open>
  Claim C10. In the second handler of \<^verbatim>\<open>transcriptionRoutes.js\<close>, when a request is
  answered with a result whose mood score is not \<^verbatim>\<open>null\<close>, that mood score is the
  parsed \<^verbatim>\<open>overallMoodScore\<close> as it came, while the meeting row was inserted with
  \<^verbatim>\<open>Math.round(moodScore * 100)\<close>: one run, two scales.
\<close>

theorem persisted_mood_is_scaled:
  assumes "body (snd (handler_B rt env req)) = Result r" and "moodScore r \<noteq> JNull"
  shows "(\<exists>v. overall_reply env = Inr (Wellformed v)
             \<and> get_prop v ''overallMoodScore'' = Inr (moodScore r))
       \<and> (\<exists>row n. InsertMeeting row \<in> set (fst (handler_B rt env req))
             \<and> to_number rt (moodScore r) = Inr n
             \<and> mood_score row = JNum (Math_round (times rt n (Dbl 100))))"
proof (cases "req_file req")
  case None
  with assms(1) show ?thesis
    by (simp add: handler_B_def run_handler_no_file no_file_response_def)
next
  case (Some f)
  have "\<exists>t tone m rows mid.
      snd (transcribe_stage env f) = Inr t
      \<and> snd (overall_stage env (transcriptText t)) = Inr tone
      \<and> snd (segment_stage_B (Some JNull) env (segments_of t)) = Inr (m, rows)
      \<and> snd (meeting_stage_B rt env req t tone) = Inr (Some mid)
      \<and> moodScore r = fst tone"
    using assms(1)
    by (auto simp: handler_B_def snd_run_handler[OF Some] pipeline_B_def snd_andThen
          catch_block_def no_meeting_response_def
        split: sum.splits prod.splits option.splits)
  then obtain t tone m rows mid where st:
    "snd (transcribe_stage env f) = Inr t"
    "snd (overall_stage env (transcriptText t)) = Inr tone"
    "snd (segment_stage_B (Some JNull) env (segments_of t)) = Inr (m, rows)"
    "snd (meeting_stage_B rt env req t tone) = Inr (Some mid)"
    "moodScore r = fst tone"
    by blast
  from overall_stage_mood[OF st(2)] assms(2) st(5)
  have nn: "\<not> nullish (fst tone)"
    and raw: "\<exists>v. overall_reply env = Inr (Wellformed v)
                \<and> get_prop v ''overallMoodScore'' = Inr (fst tone)"
    by auto
  from meeting_stage_B_mood[OF st(4) nn] obtain row n where row:
    "fst (meeting_stage_B rt env req t tone) = [InsertMeeting row]"
    "to_number rt (fst tone) = Inr n"
    "mood_score row = JNum (Math_round (times rt n (Dbl 100)))"
    by blast
  have "InsertMeeting row \<in> set (fst (handler_B rt env req))"
    by (simp add: handler_B_def fst_run_handler[OF Some] pipeline_B_def fst_andThen
          snd_andThen st row)
  with raw row st(5) show ?thesis by auto
qed

theorem persisted_mood_is_scaled_witness:
  "body (snd (handler_B sample_runtime sample_env sample_request)) = Result sample_result_B
   \<and> moodScore sample_result_B = JNum (Dbl (1 / 2))
   \<and> (\<exists>row. InsertMeeting row \<in> set (fst (handler_B sample_runtime sample_env sample_request))
          \<and> mood_score row = JNum (Dbl 50))"
proof -
  have h: "body (snd (handler_B sample_runtime sample_env sample_request)) = Result sample_result_B"
    by (simp add: value_defs stage_defs handler_B_defs sample_defs sample_result_B_def
          enumerate_eq_zip)
  have g: "moodScore sample_result_B \<noteq> JNull"
    by (simp add: sample_result_B_def)
  have m: "moodScore sample_result_B = JNum (Dbl (1 / 2))"
    by (simp add: sample_result_B_def)
  from persisted_mood_is_scaled [OF h g] obtain row n where
    "InsertMeeting row \<in> set (fst (handler_B sample_runtime sample_env sample_request))"
    "to_number sample_runtime (moodScore sample_result_B) = Inr n"
    "mood_score row = JNum (Math_round (times sample_runtime n (Dbl 100)))"
    by blast
  moreover have "\<lfloor>101 / 2 :: rat\<rfloor> = 50"
    by (rule floor_unique) simp_all
  ultimately have "InsertMeeting row \<in> set (fst (handler_B sample_runtime sample_env sample_request))
      \<and> mood_score row = JNum (Dbl 50)"
    by (auto simp: m sample_runtime_def)
  with h m show ?thesis by blast
qed

subsection \<open>A failing overall-tone stage\<close>

text \<open>
  Claim C1, as stated, has the overall-tone stage fail without harm both when its output
  does not parse and when the remote call throws. The call stands outside the inner
  \<^verbatim>\<open>try\<close> block, in each of the three handlers: when it throws, the outer
  \<^verbatim>\<open>catch\<close> block answers HTTP 500. Here the first handler gets a connection error
  from the overall-tone call, every other service being ready to answer; the response is
  HTTP 500 and nothing is written.
\<close>

theorem overall_call_throw_is_fatal:
  "overall_reply network_down_env = Inl (Exn ''Error'' ''Connection error.'')
   \<and> snd (handler_A network_down_env sample_request)
       = \<lparr>status = 500, body = ErrorDetails ''Failed to process meeting'' ''Connection error.''\<rparr>
   \<and> filter is_write (fst (handler_A network_down_env sample_request)) = []"
  by (simp add: network_down_env_def value_defs stage_defs handler_A_defs sample_defs
        enumerate_eq_zip)


text \<open>
  Claim C1, amended. For a request with a file whose transcription succeeds with a
  non-empty text: when the overall-tone call returns and its output does not parse as
  JSON, the failure is absorbed: if no later stage throws and the meeting insert
  succeeds, the response is HTTP 200 with mood score, dominant emotion and emotion
  breakdown \<^verbatim>\<open>null\<close> and with the transcript and the segments, and the meeting row
  was inserted with the three fields \<^verbatim>\<open>null\<close>. When the overall-tone call throws, the
  response is HTTP 500 with the error's message, and nothing is written.
\<close>

theorem overall_parse_failure_is_absorbed:
  assumes "req_file req = Some f" and "read_file env = None" and "transcribe env = Inr t"
    and "transcriptText t \<noteq> []"
  shows "(overall_reply env = Inr Malformed
          \<and> snd (segment_stage_A env (segments_of t)) = Inr (m, rows)
          \<and> ins_error (meeting_insert env) = None \<and> ins_data (meeting_insert env) = Some mid
          \<and> snd (summary_stage_A env (transcriptText t)) = Inr (s, ts)
          \<and> snd (save_summary_A mid s) = Inr () \<and> snd (save_tasks_A mid ts) = Inr ()
          \<longrightarrow>
            snd (handler_A env req) =
              \<lparr>status = 200,
               body = Result
                 \<lparr>meetingId = mid, transcript = transcriptText t, segments = segments_of t,
                  words = t_words t, summary = Some s, tasks = Some ts,
                  moodScore = JNull, dominantEmotion = JNull, emotionBreakdown = JNull,
                  segmentEmotions = rows\<rparr>\<rparr>
            \<and> InsertMeeting
                 \<lparr>m_title = JStr (meetingTitle env f), m_meeting_type = JStr ''generic'',
                  m_duration = Math_round (duration_or_0 t), mood_score = JNull,
                  dominant_emotion = JNull, emotion_breakdown = JNull,
                  m_transcript = None, cloud_path = None\<rparr>
                \<in> set (fst (handler_A env req)))
       \<and> (\<forall>e. overall_reply env = Inl e \<longrightarrow>
            snd (handler_A env req) =
              \<lparr>status = 500, body = ErrorDetails ''Failed to process meeting'' (details_of e)\<rparr>
            \<and> filter is_write (fst (handler_A env req)) = [])"
proof -
  note ts = transcribe_stage_ok[OF assms(2,3)]
  have 1: "snd (handler_A env req) =
              \<lparr>status = 200,
               body = Result
                 \<lparr>meetingId = mid, transcript = transcriptText t, segments = segments_of t,
                  words = t_words t, summary = Some s, tasks = Some ts,
                  moodScore = JNull, dominantEmotion = JNull, emotionBreakdown = JNull,
                  segmentEmotions = rows\<rparr>\<rparr>"
    if "overall_reply env = Inr Malformed"
      "snd (segment_stage_A env (segments_of t)) = Inr (m, rows)"
      "ins_error (meeting_insert env) = None" "ins_data (meeting_insert env) = Some mid"
      "snd (summary_stage_A env (transcriptText t)) = Inr (s, ts)"
      "snd (save_summary_A mid s) = Inr ()" "snd (save_tasks_A mid ts) = Inr ()"
    using that
    by (simp add: handler_A_def snd_run_handler[OF assms(1)] pipeline_A_def snd_andThen ts
          overall_stage_malformed[OF _ assms(4)] meeting_stage_A_ok save_stages_A_succeed)
  have 2: "InsertMeeting
                 \<lparr>m_title = JStr (meetingTitle env f), m_meeting_type = JStr ''generic'',
                  m_duration = Math_round (duration_or_0 t), mood_score = JNull,
                  dominant_emotion = JNull, emotion_breakdown = JNull,
                  m_transcript = None, cloud_path = None\<rparr>
                \<in> set (fst (handler_A env req))"
    if "overall_reply env = Inr Malformed"
      "snd (segment_stage_A env (segments_of t)) = Inr (m, rows)"
      "ins_error (meeting_insert env) = None" "ins_data (meeting_insert env) = Some mid"
    using that
    by (simp add: handler_A_def fst_run_handler[OF assms(1)] pipeline_A_def fst_andThen
          snd_andThen ts overall_stage_malformed[OF _ assms(4)] meeting_stage_A_ok)
  have 3: "snd (handler_A env req) =
              \<lparr>status = 500, body = ErrorDetails ''Failed to process meeting'' (details_of e)\<rparr>
            \<and> filter is_write (fst (handler_A env req)) = []"
    if "overall_reply env = Inl e" for e
    using that
    by (simp add: handler_A_def fst_run_handler[OF assms(1)] snd_run_handler[OF assms(1)]
          pipeline_A_def fst_andThen snd_andThen ts overall_stage_throws[OF _ assms(4)]
          catch_block_def)
  show ?thesis using 1 2 3 by blast
qed


theorem overall_parse_failure_is_absorbed_witness:
  "req_file sample_request = Some sample_upload \<and> read_file garbled_tone_env = None
   \<and> transcribe garbled_tone_env = Inr sample_transcription
   \<and> transcriptText sample_transcription \<noteq> []
   \<and> overall_reply garbled_tone_env = Inr Malformed
   \<and> status (snd (handler_A garbled_tone_env sample_request)) = 200
   \<and> overall_reply network_down_env = Inl (Exn ''Error'' ''Connection error.'')
   \<and> status (snd (handler_A network_down_env sample_request)) = 500"
proof -
  have h: "req_file sample_request = Some sample_upload" "read_file garbled_tone_env = None"
    "transcribe garbled_tone_env = Inr sample_transcription"
    "transcriptText sample_transcription \<noteq> []"
    by (simp_all add: garbled_tone_env_def sample_defs transcriptText_def)
  have k: "read_file network_down_env = None"
    "transcribe network_down_env = Inr sample_transcription"
    by (simp_all add: network_down_env_def sample_defs)
  have g: "overall_reply garbled_tone_env = Inr Malformed"
    "snd (segment_stage_A garbled_tone_env (segments_of sample_transcription))
       = Inr ([(JNum (Dbl 0), JStr ''happy'', JNum (Dbl (1 / 4)))],
              [\<lparr>se_meeting_id = None, segment_index = JNum (Dbl 0), se_start = JNum (Dbl 0),
                se_end = JNum (Dbl 2), se_emotion = JStr ''happy'',
                se_score = JNum (Dbl (1 / 4))\<rparr>])"
    "ins_error (meeting_insert garbled_tone_env) = None"
    "ins_data (meeting_insert garbled_tone_env) = Some (JStr ''m1'')"
    "snd (summary_stage_A garbled_tone_env (transcriptText sample_transcription))
       = Inr (JObj [(''bullets'', JArr [JStr ''Good progress''])], JArr [])"
    "snd (save_summary_A (JStr ''m1'') (JObj [(''bullets'', JArr [JStr ''Good progress''])])) = Inr ()"
    "snd (save_tasks_A (JStr ''m1'') (JArr [])) = Inr ()"
    by (simp_all add: garbled_tone_env_def value_defs stage_defs handler_A_defs sample_defs
          enumerate_eq_zip)
  have n: "overall_reply network_down_env = Inl (Exn ''Error'' ''Connection error.'')"
    by (simp add: network_down_env_def)
  from overall_parse_failure_is_absorbed [OF h, THEN conjunct1, rule_format, OF conjI, OF g(1)]
    g(2-)
  have a: "status (snd (handler_A garbled_tone_env sample_request)) = 200"
    by simp
  from overall_parse_failure_is_absorbed [OF h(1) k h(4), THEN conjunct2, rule_format, OF n]
  have b: "status (snd (handler_A network_down_env sample_request)) = 500"
    by simp
  from h g(1) n a b show ?thesis by simp
qed

subsection \<open>The index of a segment emotion\<close>

text \<open>
  Claim C5, as stated, has every persisted SegmentEmotion row carry an index of an
  existing segment, even when the classifier names others. The handlers store
  \<^verbatim>\<open>s.index\<close> as it comes and only guard the lookup of start and end
  (\<^verbatim>\<open>segmentPayload[s.index]?.start ?? null\<close>). Here the transcript has one segment
  and the classifier answers for index 5: the row is written to \<^verbatim>\<open>emotions\<close> with
  index 5 and no start and end, and the request is answered with HTTP 200.
\<close>

theorem segment_index_out_of_range_is_persisted:
  "segments_of sample_transcription = [sample_segment]
   \<and> InsertEmotions ''emotions''
        [\<lparr>se_meeting_id = Some (JStr ''m1''), segment_index = JNum (Dbl 5),
          se_start = JNull, se_end = JNull, se_emotion = JStr ''happy'',
          se_score = JNum (Dbl (1 / 4))\<rparr>]
       \<in> set (fst (handler_A stray_index_env sample_request))
   \<and> status (snd (handler_A stray_index_env sample_request)) = 200"
  by (simp add: stray_index_env_def value_defs stage_defs handler_A_defs sample_defs
        enumerate_eq_zip)


text \<open>
  Claim C5, amended. Every SegmentEmotion row the first handler writes carries as
  \<^verbatim>\<open>segment_index\<close> the \<^verbatim>\<open>index\<close> of one element of the classifier's output,
  unchecked. When that index is the position of a segment, the row's start and end are
  that segment's (\<^verbatim>\<open>null\<close> where the segment has none); when it is a whole number
  that is no position of a segment, start and end are \<^verbatim>\<open>null\<close>.
\<close>

theorem segment_emotion_carries_classifier_index:
  assumes "InsertEmotions tbl rs \<in> set (fst (handler_A env req))" and "r \<in> set rs"
    and "transcribe env = Inr t"
  shows "(\<exists>c s. segment_reply env = Inr c \<and> s \<in> set (segResults_A c)
             \<and> get_prop s ''index'' = Inr (segment_index r))
       \<and> (\<forall>i. segment_index r = JNum (Dbl (of_nat i)) \<longrightarrow>
            (if i < length (segments_of t)
             then se_start r = coalesce (seg_start (segments_of t ! i)) JNull
                  \<and> se_end r = coalesce (seg_end (segments_of t ! i)) JNull
             else se_start r = JNull \<and> se_end r = JNull))"
proof (cases "req_file req")
  case None
  with assms(1) show ?thesis by (simp add: handler_A_def run_handler_no_file)
next
  case (Some f)
  have tt: "t' = t" if "snd (transcribe_stage env f) = Inr t'" for t'
    using transcribe_stage_value[OF that] assms(3) by simp
  have "\<exists>m rows mid. Inr (m, rows) = snd (segment_stage_A env (segments_of t))
      \<and> InsertEmotions tbl rs \<in> set (fst (save_emotions_A mid rows))"
    using assms(1)
    by (auto simp: handler_A_def fst_run_handler[OF Some] pipeline_A_def fst_andThen
          snd_andThen stage_no_emotion_insert
        split: sum.splits prod.splits dest: tt tt[OF sym])
  then obtain m rows mid where st:
    "snd (segment_stage_A env (segments_of t)) = Inr (m, rows)"
    "InsertEmotions tbl rs \<in> set (fst (save_emotions_A mid rows))"
    by metis
  from save_emotions_A_rows[OF st(2)] assms(2) obtain r0 where r0:
    "r0 \<in> set rows" "r = r0\<lparr>se_meeting_id := Some mid\<rparr>"
    by auto
  from segment_stage_A_rows[OF st(1) r0(1)] obtain c s where cs:
    "segment_reply env = Inr c" "s \<in> set (segResults_A c)"
    "get_prop s ''index'' = Inr (segment_index r0)"
    "payload_start (segmentPayload (segments_of t)) (segment_index r0) = Inr (se_start r0)"
    "payload_end (segmentPayload (segments_of t)) (segment_index r0) = Inr (se_end r0)"
    by blast
  have 1: "\<exists>c s. segment_reply env = Inr c \<and> s \<in> set (segResults_A c)
             \<and> get_prop s ''index'' = Inr (segment_index r)"
    using cs r0(2) by auto
  have 2: "if i < length (segments_of t)
             then se_start r = coalesce (seg_start (segments_of t ! i)) JNull
                  \<and> se_end r = coalesce (seg_end (segments_of t ! i)) JNull
             else se_start r = JNull \<and> se_end r = JNull"
    if "segment_index r = JNum (Dbl (of_nat i))" for i
    using that cs(4,5) r0(2)
    by (auto simp: payload_start_position payload_end_position)
  show ?thesis using 1 2 by blast
qed


theorem segment_emotion_carries_classifier_index_witness:
  "InsertEmotions ''emotions''
        [\<lparr>se_meeting_id = Some (JStr ''m1''), segment_index = JNum (Dbl 5),
          se_start = JNull, se_end = JNull, se_emotion = JStr ''happy'',
          se_score = JNum (Dbl (1 / 4))\<rparr>]
       \<in> set (fst (handler_A stray_index_env sample_request))
   \<and> transcribe stray_index_env = Inr sample_transcription
   \<and> (\<exists>c s. segment_reply stray_index_env = Inr c \<and> s \<in> set (segResults_A c)
          \<and> get_prop s ''index'' = Inr (JNum (Dbl 5)))"
proof -
  have h: "InsertEmotions ''emotions''
        [\<lparr>se_meeting_id = Some (JStr ''m1''), segment_index = JNum (Dbl 5),
          se_start = JNull, se_end = JNull, se_emotion = JStr ''happy'',
          se_score = JNum (Dbl (1 / 4))\<rparr>]
       \<in> set (fst (handler_A stray_index_env sample_request))"
    by (simp add: stray_index_env_def value_defs stage_defs handler_A_defs sample_defs
          enumerate_eq_zip)
  have t: "transcribe stray_index_env = Inr sample_transcription"
    by (simp add: stray_index_env_def sample_defs)
  from segment_emotion_carries_classifier_index [OF h _ t,
      of "\<lparr>se_meeting_id = Some (JStr ''m1''), segment_index = JNum (Dbl 5),
          se_start = JNull, se_end = JNull, se_emotion = JStr ''happy'',
          se_score = JNum (Dbl (1 / 4))\<rparr>"]
  have "\<exists>c s. segment_reply stray_index_env = Inr c \<and> s \<in> set (segResults_A c)
          \<and> get_prop s ''index'' = Inr (JNum (Dbl 5))"
    by simp
  with h t show ?thesis by blast
qed

subsection \<open>The score of a segment emotion\<close>

text \<open>
  The first handler keeps a score only when it is a number from 0 to 1 and stores 0.5
  otherwise, and stores "neutral" for a missing label: every row it writes to
  \<^verbatim>\<open>emotions\<close> has a score in that range and a label.
\<close>

lemma handler_A_scores_in_range:
  assumes "InsertEmotions tbl rs \<in> set (fst (handler_A env req))" and "r \<in> set rs"
  shows "(\<exists>q. se_score r = JNum (Dbl q) \<and> 0 \<le> q \<and> q \<le> 1) \<and> truthy (se_emotion r)"
proof (cases "req_file req")
  case None
  with assms(1) show ?thesis by (simp add: handler_A_def run_handler_no_file)
next
  case (Some f)
  have "\<exists>t m rows mid. Inr (m, rows) = snd (segment_stage_A env (segments_of t))
      \<and> InsertEmotions tbl rs \<in> set (fst (save_emotions_A mid rows))"
    using assms(1)
    by (auto simp: handler_A_def fst_run_handler[OF Some] pipeline_A_def fst_andThen
          snd_andThen stage_no_emotion_insert
        split: sum.splits prod.splits)
  then obtain t m rows mid where st:
    "snd (segment_stage_A env (segments_of t)) = Inr (m, rows)"
    "InsertEmotions tbl rs \<in> set (fst (save_emotions_A mid rows))"
    by metis
  from save_emotions_A_rows[OF st(2)] assms(2) obtain r0 where r0:
    "r0 \<in> set rows" "r = r0\<lparr>se_meeting_id := Some mid\<rparr>"
    by auto
  from st(1) r0(1)
  have "\<exists>c. collect_A (segmentPayload (segments_of t)) (segResults_A c) ([], []) = (m, rows)"
    by (auto simp: segment_stage_A_def split: if_splits sum.splits)
  then obtain c where
    "collect_A (segmentPayload (segments_of t)) (segResults_A c) ([], []) = (m, rows)"
    by blast
  with r0(1)
  have "r0 \<in> set (snd (collect_A (segmentPayload (segments_of t)) (segResults_A c) ([], [])))"
    by simp
  from collect_A_scores[OF this] obtain sc emo where
    "se_score r0 = score_A sc" "se_emotion r0 = or_else emo (JStr ''neutral'')"
    by auto
  with r0(2) score_A_in_range[of sc] or_else_neutral[of emo] show ?thesis by simp
qed

text \<open>
  Claim C2 asks the same of every persisted SegmentEmotion row. The second handler
  checks the type of the score and not its range. Here the classifier answers with a
  confidence of 1.5 for the one segment: the second handler writes the row to
  \<^verbatim>\<open>emotion_segments\<close> with score 1.5 and answers HTTP 200, where the first handler
  writes it with 0.5.
\<close>

theorem unchecked_score_is_persisted:
  "InsertEmotions ''emotion_segments''
     [\<lparr>se_meeting_id = Some (JStr ''m1''), segment_index = JNum (Dbl 0),
       se_start = JNum (Dbl 0), se_end = JNum (Dbl 2), se_emotion = JStr ''happy'',
       se_score = JNum (Dbl (3 / 2))\<rparr>]
     \<in> set (fst (handler_B sample_runtime overconfident_env sample_request))
   \<and> status (snd (handler_B sample_runtime overconfident_env sample_request)) = 200
   \<and> InsertEmotions ''emotions''
     [\<lparr>se_meeting_id = Some (JStr ''m1''), segment_index = JNum (Dbl 0),
       se_start = JNum (Dbl 0), se_end = JNum (Dbl 2), se_emotion = JStr ''happy'',
       se_score = JNum (Dbl (1 / 2))\<rparr>]
     \<in> set (fst (handler_A overconfident_env sample_request))"
  by (simp add: overconfident_env_def value_defs stage_defs handler_A_defs handler_B_defs
        sample_defs enumerate_eq_zip)


subsection \<open>The temporary file\<close>

text \<open>
  The first handler removes the upload on every way out: a request with a file (of a
  non-empty path) causes exactly one \<^verbatim>\<open>fs.unlink\<close>, of the path as given or with its
  backslashes turned.
\<close>

lemma handler_A_unlinks_once:
  assumes "req_file req = Some f" and "file_path f \<noteq> []"
  shows "filter is_unlink (fst (handler_A env req)) = [Unlink (fixedPath f)]
       \<or> filter is_unlink (fst (handler_A env req)) = [Unlink (file_path f)]"
  using assms(2)
  by (simp add: handler_A_def fst_run_handler[OF assms(1)] pipeline_A_def fst_andThen
        snd_andThen stage_no_unlink catch_block_def
      split: sum.splits prod.splits)


text \<open>
  Claim C3 asks the same of every exit of every handler. The second handler answers a
  failed meeting insert with a \<^verbatim>\<open>return\<close> that leaves the \<^verbatim>\<open>try\<close> block
  normally, past the \<^verbatim>\<open>fs.unlink\<close> of the success path and past the \<^verbatim>\<open>catch\<close>
  block. Here the meeting insert fails: the second handler answers HTTP 500 and never
  calls \<^verbatim>\<open>fs.unlink\<close>, where the first handler removes the file.
\<close>

theorem temporary_file_is_left_behind:
  "snd (handler_B sample_runtime failed_insert_env sample_request)
     = \<lparr>status = 500, body = ErrorBody ''Failed to create meeting record''\<rparr>
   \<and> filter is_unlink (fst (handler_B sample_runtime failed_insert_env sample_request)) = []
   \<and> filter is_unlink (fst (handler_A failed_insert_env sample_request)) = [Unlink ''tmp/abc'']"
  by (simp add: failed_insert_env_def value_defs stage_defs handler_A_defs handler_B_defs
        sample_defs enumerate_eq_zip)


end
